theory Spec2Isabelle
  imports Complex_Main "HOL-Library.Word" "HOL-Library.Sublist"
begin

text \<open>
  A model of the mental-wellness platform's chatbot and appointment handling: the keyword
  classifier and the three chatbot routes of the server, the review and status controls of
  the user and therapist dashboards, and the appointment life cycle and slot computation
  the dashboards rely on. Definitions come first; the properties follow.
\<close>

section \<open>Strings\<close>

text \<open>
  A JavaScript string is a sequence of UTF-16 code units. The literals of the source are
  written with \<open>js\<close>, which maps the ASCII characters of an Isabelle string to their code
  units; the few non-ASCII characters of the canned responses are given by code point.
\<close>

type_synonym js_string = "16 word list"

definition js :: "string \<Rightarrow> js_string" where
  "js s = map of_char s"

text \<open>
  \<open>String.prototype.includes\<close>: the argument occurs as a contiguous run of code units.
\<close>

fun str_includes :: "js_string \<Rightarrow> js_string \<Rightarrow> bool" where
  "str_includes [] w = (w = [])"
| "str_includes (c # cs) w = (prefix w (c # cs) \<or> str_includes cs w)"

text \<open>
  \<open>String.prototype.toLowerCase\<close> is a built-in with the full Unicode case mapping. The
  classifier takes it as a parameter, so every statement about the classifier holds for
  the built-in whatever it maps. \<open>toLowerCase_ascii\<close> is its restriction to the ASCII
  letters, used to run the classifier on concrete messages.
\<close>

definition toLowerCase_ascii :: "js_string \<Rightarrow> js_string" where
  "toLowerCase_ascii s = map (\<lambda>c. if 0x41 \<le> c \<and> c \<le> 0x5A then c + 0x20 else c) s"

section \<open>The chatbot classifier (routes/chatbot.ts)\<close>

text \<open>
  \<open>pick\<close> is \<open>arr[Math.floor(Math.random() * arr.length)]\<close>. The value of
  \<open>Math.random()\<close> is the parameter \<open>r\<close>; JavaScript promises \<open>0 \<le> r < 1\<close>. Reading an
  array out of range gives \<open>undefined\<close>, which is \<open>None\<close> here.
\<close>

definition pick :: "real \<Rightarrow> 'a list \<Rightarrow> 'a option" where
  "pick r arr =
     (let i = \<lfloor>r * real (length arr)\<rfloor>
      in if 0 \<le> i \<and> i < int (length arr) then Some (arr ! nat i) else None)"

definition greetings :: "js_string list" where
  "greetings =
    [js ''Hi, I'm here with you. How are you feeling right now?'',
     js ''Hello. Thanks for reaching out'' @ [0x2014] @ js ''what's on your mind?'',
     js ''Hey, I'm listening. Want to tell me a bit more about it?'']"

definition anxiety :: "js_string list" where
  "anxiety =
    [js ''It sounds like anxiety is showing up. Try taking 5 deep breaths: inhale for 4 counts, hold for 4, exhale for 6. What usually helps you feel a little safer?'',
     js ''Those anxious waves can feel intense. Try a slow exhale (6 counts). What triggered it today?'']"

definition lowMood :: "js_string list" where
  "lowMood =
    [js ''I'm sorry it's heavy. Small steps help'' @ [0x2014] @ js ''maybe a glass of water or a short stretch. What would feel kind to yourself right now?'',
     js ''Feeling low can be exhausting. You matter. Would writing down one worry help externalize it?'']"

definition stress :: "js_string list" where
  "stress =
    [js ''Stress piles up fast. Let'' @ [0x2019] @ js ''s prioritize: what is one small task you can do next?'',
     js ''Your nervous system might need a micro-break. 5 slow breaths, shoulders down, unclench jaw.'']"

definition sleep :: "js_string list" where
  "sleep =
    [js ''Sleep troubles are tough. Try dimming lights, avoiding screens 30 minutes before bed, and a calm breath pattern (4-4-6).'',
     js ''If your mind is racing, a quick brain dump on paper can help before bed.'']"

definition anger :: "js_string list" where
  "anger =
    [js ''Anger is a valid signal. If safe, step back, cool water on wrists, and name what boundary was crossed.'',
     js ''Let'' @ [0x2019] @ js ''s channel it safely: paced breathing and a short walk can release tension.'']"

definition panic :: "js_string list" where
  "panic =
    [js ''Panic can feel scary but it will pass. Look around and name 5 things you can see. I'' @ [0x2019] @ js ''m here with you.'',
     js ''Place a hand on your chest and feel the rise and fall'' @ [0x2014] @ js ''let your exhale be longer than your inhale.'']"

definition relationship :: "js_string list" where
  "relationship =
    [js ''Relationships are complex. Would you like to try an '' @ [0x201C] @ js ''I feel'' @ [0x2026] @ js '' when'' @ [0x2026] @ js '' I need'' @ [0x2026] @ [0x201D] @ js '' statement?'',
     js ''Can we clarify the need underneath the conflict? What are you hoping to feel more of?'']"

definition workStudy :: "js_string list" where
  "workStudy =
    [js ''Work/study stress is real. Let'' @ [0x2019] @ js ''s chunk it: pick a 15'' @ [0x2011] @ js ''minute focus block, then a 2'' @ [0x2011] @ js ''minute break.'',
     js ''Try the 1'' @ [0x2013] @ js ''3 priority list for today: one must'' @ [0x2011] @ js ''do, two nice'' @ [0x2011] @ js ''to'' @ [0x2011] @ js ''do.'']"

definition physical :: "js_string list" where
  "physical =
    [js ''Headaches/fever can make everything harder. Hydrate, rest your eyes, and notice any triggers. If symptoms persist or worsen, consider medical advice. Emotionally'' @ [0x2014] @ js ''what'' @ [0x2019] @ js ''s the biggest worry behind it?'',
     js ''Your body is asking for care. Gentle rest, water, and light food may help. If pain or fever continues, a healthcare check is wise. How are you feeling emotionally about it?'']"

definition generic :: "js_string list" where
  "generic =
    [js ''I hear you. Try taking 5 deep breaths: inhale for 4 counts, hold for 4, exhale for 6. If it helps, share a bit more about what happened today so we can unpack it together.'',
     js ''Thanks for opening up. Let's take one small step: what is one thing within your control right now?'',
     js ''You don't have to carry this alone. Would naming your top concern in one sentence help us focus?'',
     js ''Let's slow it down together'' @ [0x2014] @ js ''long exhale, relaxed shoulders. What support would feel most helpful right now?'']"

definition crisis :: "js_string list" where
  "crisis =
    [js ''If you'' @ [0x2019] @ js ''re thinking about harming yourself or others, your safety matters most. Please contact local emergency services or a trusted person right now. If available, consider your country'' @ [0x2019] @ js ''s crisis hotline.'']"

text \<open>\<open>has\<close> is \<open>k.some(w => text.includes(w))\<close> of the source.\<close>

definition has :: "js_string \<Rightarrow> js_string list \<Rightarrow> bool" where
  "has text k = list_ex (\<lambda>w. str_includes text w) k"

text \<open>
  The classifier. \<open>message\<close> has type \<open>string\<close> in the source, so \<open>(message || '')\<close> is
  \<open>message\<close> itself (the empty string is the only falsy string).
\<close>

definition generateLocalResponse ::
  "(js_string \<Rightarrow> js_string) \<Rightarrow> real \<Rightarrow> js_string \<Rightarrow> js_string option" where
  "generateLocalResponse toLowerCase r message =
     (let text = toLowerCase (if message = [] then [] else message) in
      if has text [js ''suicide'', js ''self harm'', js ''hurt myself'', js ''end it'', js ''kill myself'']
        then Some (crisis ! 0)
      else if has text [js ''panic'', js ''panic attack'', js ''heart racing''] then pick r panic
      else if has text [js ''anxiety'', js ''anxious'', js ''worry'', js ''worried''] then pick r anxiety
      else if has text [js ''depress'', js ''sad'', js ''down'', js ''empty''] then pick r lowMood
      else if has text [js ''stress'', js ''overwhelmed'', js ''overwhelm'', js ''burnout''] then pick r stress
      else if has text [js ''sleep'', js ''insomnia'', js ''can't sleep'', js ''cant sleep''] then pick r sleep
      else if has text [js ''angry'', js ''anger'', js ''rage''] then pick r anger
      else if has text [js ''partner'', js ''relationship'', js ''breakup'', js ''friend'', js ''family'']
        then pick r relationship
      else if has text [js ''work'', js ''office'', js ''deadline'', js ''study'', js ''exam'', js ''college'', js ''school'']
        then pick r workStudy
      else if has text [js ''fever'', js ''headache'', js ''pain'', js ''sick'', js ''ill'', js ''nausea'']
        then pick r physical
      else if has text [js ''hi'', js ''hello'', js ''hey''] then pick r greetings
      else pick r generic)"

text \<open>
  The classification as the specification words it: an ordered list of buckets, each a
  keyword set with its canned responses; the first bucket with a keyword in the text
  decides, and the generic prompts are the default.
\<close>

definition crisis_keywords :: "js_string list" where
  "crisis_keywords = [js ''suicide'', js ''self harm'', js ''hurt myself'', js ''end it'', js ''kill myself'']"

definition spec_buckets :: "(js_string list \<times> js_string list) list" where
  "spec_buckets =
    [(crisis_keywords, crisis),
     ([js ''panic'', js ''panic attack'', js ''heart racing''], panic),
     ([js ''anxiety'', js ''anxious'', js ''worry'', js ''worried''], anxiety),
     ([js ''depress'', js ''sad'', js ''down'', js ''empty''], lowMood),
     ([js ''stress'', js ''overwhelmed'', js ''overwhelm'', js ''burnout''], stress),
     ([js ''sleep'', js ''insomnia'', js ''can't sleep'', js ''cant sleep''], sleep),
     ([js ''angry'', js ''anger'', js ''rage''], anger),
     ([js ''partner'', js ''relationship'', js ''breakup'', js ''friend'', js ''family''], relationship),
     ([js ''work'', js ''office'', js ''deadline'', js ''study'', js ''exam'', js ''college'', js ''school''], workStudy),
     ([js ''fever'', js ''headache'', js ''pain'', js ''sick'', js ''ill'', js ''nausea''], physical),
     ([js ''hi'', js ''hello'', js ''hey''], greetings)]"

definition spec_bucket_responses :: "js_string \<Rightarrow> js_string list" where
  "spec_bucket_responses text =
     (case find (\<lambda>(k, rs). has text k) spec_buckets of
        Some (k, rs) \<Rightarrow> rs
      | None \<Rightarrow> generic)"

section \<open>The chatbot routes (routes/chatbot.ts)\<close>

subsection \<open>The ChatMessage collection\<close>

text \<open>
  The schema file of \<open>ChatMessage\<close> is not part of the sources; the record has the fields the
  routes write, filter and sort on. A collection is the list of its documents in insertion
  order. \<open>createdAt\<close> is stamped when a document is saved.
\<close>

type_synonym user_id = nat

datatype message_type = UserMessage | AiMessage

record ChatMessage =
  cm_user :: user_id
  cm_sessionId :: js_string
  cm_message :: js_string
  cm_messageType :: message_type
  cm_createdAt :: nat

type_synonym collection = "ChatMessage list"

text \<open>
  \<open>document.save()\<close> either stores the document, stamped with the time of the save, or
  throws. The outcome is given by the environment: \<open>Some t\<close> is a save at time \<open>t\<close>,
  \<open>None\<close> a save that throws. A document that is not saved yet has no time; the record
  built by \<open>new ChatMessage\<close> carries \<open>0\<close> there, which the save overwrites and nothing reads.
\<close>

definition save :: "collection \<Rightarrow> ChatMessage \<Rightarrow> nat option \<Rightarrow> (collection \<times> ChatMessage) option" where
  "save db doc outcome =
     (case outcome of
        None \<Rightarrow> None
      | Some t \<Rightarrow> (let stored = doc\<lparr>cm_createdAt := t\<rparr> in Some (db @ [stored], stored)))"

subsection \<open>Request validation (express-validator)\<close>

text \<open>
  The body of \<open>POST /send\<close>. The client sends \<open>message\<close> as a string; it may be missing.
  \<open>sessionId\<close> may be missing, a string, or some other JSON value.
\<close>

datatype body_value = JString js_string | JOther

record send_body =
  body_message :: "js_string option"
  body_sessionId :: "body_value option"

record validation_error =
  err_path :: string
  err_msg :: string

text \<open>
  The sanitizer \<open>trim()\<close> removes leading and trailing white space, the characters of the
  regular expression class \<open>\s\<close>.
\<close>

definition isWhitespace :: "16 word \<Rightarrow> bool" where
  "isWhitespace c \<longleftrightarrow>
     (0x09 \<le> c \<and> c \<le> 0x0D) \<or> c = 0x20 \<or> c = 0xA0 \<or> c = 0x1680 \<or>
     (0x2000 \<le> c \<and> c \<le> 0x200A) \<or> c = 0x2028 \<or> c = 0x2029 \<or> c = 0x202F \<or>
     c = 0x205F \<or> c = 0x3000 \<or> c = 0xFEFF"

definition trim :: "js_string \<Rightarrow> js_string" where
  "trim s = rev (dropWhile isWhitespace (rev (dropWhile isWhitespace s)))"

text \<open>
  \<open>body('message').trim().notEmpty()\<close>: the sanitizer runs first and its result replaces
  \<open>req.body.message\<close>; a missing field is sanitized as the empty string. \<open>notEmpty\<close> then
  fails on the empty string.
\<close>

definition sanitized_message :: "send_body \<Rightarrow> js_string" where
  "sanitized_message body = trim (case body_message body of None \<Rightarrow> [] | Some m \<Rightarrow> m)"

definition message_errors :: "send_body \<Rightarrow> validation_error list" where
  "message_errors body =
     (if sanitized_message body = []
      then [\<lparr>err_path = ''message'', err_msg = ''Message cannot be empty.''\<rparr>]
      else [])"

text \<open>
  \<open>body('sessionId').optional().isString()\<close>: a missing field is skipped, any present value
  must be a string.
\<close>

definition sessionId_errors :: "send_body \<Rightarrow> validation_error list" where
  "sessionId_errors body =
     (case body_sessionId body of
        None \<Rightarrow> []
      | Some (JString s) \<Rightarrow> []
      | Some JOther \<Rightarrow> [\<lparr>err_path = ''sessionId'', err_msg = ''Session ID must be a string.''\<rparr>])"

definition validationResult :: "send_body \<Rightarrow> validation_error list" where
  "validationResult body = message_errors body @ sessionId_errors body"

subsection \<open>POST /send\<close>

text \<open>
  What the handler reads from outside: \<open>Date.now()\<close>, \<open>Math.random()\<close> and the outcome of
  the two saves.
\<close>

record send_env =
  env_now :: nat
  env_random :: real
  env_user_save :: "nat option"
  env_ai_save :: "nat option"

datatype send_reply =
    ValidationErrors "validation_error list"
  | Sent ChatMessage js_string

text \<open>
  A handler either answers with a status code and a JSON body, or hands an error to
  \<open>next\<close>.
\<close>

datatype 'a result = Reply nat 'a | NextError

text \<open>Decimal digits of a number, as \<open>`${Date.now()}`\<close> renders them.\<close>

fun number_to_string :: "nat \<Rightarrow> js_string" where
  "number_to_string n =
     (if n < 10 then [of_nat (48 + n)]
      else number_to_string (n div 10) @ [of_nat (48 + n mod 10)])"

declare number_to_string.simps [simp del]

text \<open>
  \<open>existingSessionId || `session_${Date.now()}`\<close>: a missing or empty session id is falsy and
  is replaced. (A non-string value never reaches this line: validation has rejected it.)
\<close>

definition session_or_new :: "body_value option \<Rightarrow> nat \<Rightarrow> js_string" where
  "session_or_new existingSessionId now =
     (case existingSessionId of
        Some (JString s) \<Rightarrow> if s \<noteq> [] then s else js ''session_'' @ number_to_string now
      | _ \<Rightarrow> js ''session_'' @ number_to_string now)"

text \<open>
  The handler behind \<open>requireUser\<close>; \<open>uid\<close> is \<open>req.user._id\<close>, the authenticated user. It
  returns the collection it leaves and its answer. An exception in the \<open>try\<close> block goes to
  \<open>next(error)\<close>; what was saved before it stays saved. A pick outside the array cannot
  happen for \<open>Math.random()\<close> in \<open>[0, 1)\<close>; the model routes it to the error exit.
\<close>

definition post_send ::
  "(js_string \<Rightarrow> js_string) \<Rightarrow> send_env \<Rightarrow> collection \<Rightarrow> user_id \<Rightarrow> send_body
     \<Rightarrow> collection \<times> send_reply result" where
  "post_send toLowerCase env db uid body =
     (let errors = validationResult body in
      if errors \<noteq> [] then (db, Reply 400 (ValidationErrors errors))
      else
        let msg = sanitized_message body;
            sid = session_or_new (body_sessionId body) (env_now env);
            userMessage = \<lparr>cm_user = uid, cm_sessionId = sid, cm_message = msg,
                            cm_messageType = UserMessage, cm_createdAt = 0\<rparr>
        in case save db userMessage (env_user_save env) of
             None \<Rightarrow> (db, NextError)
           | Some (db1, _) \<Rightarrow>
               (case generateLocalResponse toLowerCase (env_random env) msg of
                  None \<Rightarrow> (db1, NextError)
                | Some aiResponse \<Rightarrow>
                    let aiMessage = \<lparr>cm_user = uid, cm_sessionId = sid, cm_message = aiResponse,
                                      cm_messageType = AiMessage, cm_createdAt = 0\<rparr>
                    in case save db1 aiMessage (env_ai_save env) of
                         None \<Rightarrow> (db1, NextError)
                       | Some (db2, stored) \<Rightarrow> (db2, Reply 200 (Sent stored sid))))"

subsection \<open>GET /history\<close>

text \<open>
  The query string after \<open>parseInt\<close>: \<open>page\<close> and \<open>limit\<close> are integers when given (a value
  that does not parse is not modelled) and default to 1 and 50.
\<close>

record history_query =
  q_sessionId :: "js_string option"
  q_page :: "int option"
  q_limit :: "int option"

record history_reply =
  h_messages :: "ChatMessage list"
  h_totalPages :: "int option"
  h_currentPage :: int
  h_total :: nat

text \<open>
  The filter always holds the user; the session id is added when it is truthy, that is
  given and not empty.
\<close>

definition history_filter :: "user_id \<Rightarrow> js_string option \<Rightarrow> ChatMessage \<Rightarrow> bool" where
  "history_filter uid sessionId m \<longleftrightarrow>
     cm_user m = uid \<and>
     (case sessionId of
        None \<Rightarrow> True
      | Some s \<Rightarrow> if s \<noteq> [] then cm_sessionId m = s else True)"

text \<open>\<open>.sort({ createdAt: -1 })\<close>: newest first; documents of equal time keep their order.\<close>

definition sort_newest_first :: "ChatMessage list \<Rightarrow> ChatMessage list" where
  "sort_newest_first ms = sort_key (\<lambda>m. - int (cm_createdAt m)) ms"

text \<open>
  \<open>.limit(l).skip(s)\<close> as the database applies them: skip first, then limit. A limit of
  zero is no limit, a negative limit counts by its absolute value, and a negative skip is
  rejected by the database, which the handler passes to \<open>next\<close>.
\<close>

definition limit_docs :: "int \<Rightarrow> 'a list \<Rightarrow> 'a list" where
  "limit_docs l xs = (if l = 0 then xs else take (nat \<bar>l\<bar>) xs)"

definition get_history :: "collection \<Rightarrow> user_id \<Rightarrow> history_query \<Rightarrow> history_reply result" where
  "get_history db uid q =
     (let page = (case q_page q of None \<Rightarrow> 1 | Some p \<Rightarrow> p);
          limit = (case q_limit q of None \<Rightarrow> 50 | Some l \<Rightarrow> l);
          matching = filter (history_filter uid (q_sessionId q)) db;
          skip = (page - 1) * limit
      in if skip < 0 then NextError
         else
           let messages = limit_docs limit (drop (nat skip) (sort_newest_first matching));
               total = length matching
           in Reply 200
                \<lparr>h_messages = rev messages,
                 h_totalPages =
                   (if limit = 0 then None else Some \<lceil>real total / real_of_int limit\<rceil>),
                 h_currentPage = page,
                 h_total = total\<rparr>)"

subsection \<open>GET /sessions\<close>

record session_summary =
  s_id :: js_string
  s_lastMessage :: js_string
  s_lastTimestamp :: nat

text \<open>
  The aggregation: match the user's documents, group them by session id keeping the last
  message and time of each group, sort the groups newest first.
\<close>

definition group_by_session :: "ChatMessage list \<Rightarrow> session_summary list" where
  "group_by_session ms =
     map (\<lambda>sid. let g = filter (\<lambda>m. cm_sessionId m = sid) ms
                in \<lparr>s_id = sid, s_lastMessage = cm_message (last g),
                    s_lastTimestamp = cm_createdAt (last g)\<rparr>)
         (remdups (map cm_sessionId ms))"

definition get_sessions :: "collection \<Rightarrow> user_id \<Rightarrow> session_summary list result" where
  "get_sessions db uid =
     Reply 200
       (sort_key (\<lambda>s. - int (s_lastTimestamp s))
          (group_by_session (filter (\<lambda>m. cm_user m = uid) db)))"

subsection \<open>The chatbot as a whole\<close>

text \<open>Every request the three routes accept, and its effect on the collection.\<close>

datatype chatbot_request =
    Send send_env send_body
  | History history_query
  | Sessions

definition chatbot_step ::
  "(js_string \<Rightarrow> js_string) \<Rightarrow> collection \<Rightarrow> user_id \<times> chatbot_request \<Rightarrow> collection" where
  "chatbot_step toLowerCase db req =
     (case req of
        (uid, Send env body) \<Rightarrow> fst (post_send toLowerCase env db uid body)
      | (uid, History q) \<Rightarrow> db
      | (uid, Sessions) \<Rightarrow> db)"

definition chatbot_run ::
  "(js_string \<Rightarrow> js_string) \<Rightarrow> collection \<Rightarrow> (user_id \<times> chatbot_request) list \<Rightarrow> collection" where
  "chatbot_run toLowerCase db reqs = foldl (chatbot_step toLowerCase) db reqs"

subsection \<open>A small collection for examples\<close>

definition example_db :: collection where
  "example_db =
    [\<lparr>cm_user = 7, cm_sessionId = js ''s1'', cm_message = js ''hi'',
       cm_messageType = UserMessage, cm_createdAt = 1\<rparr>,
     \<lparr>cm_user = 8, cm_sessionId = js ''s2'', cm_message = js ''yo'',
       cm_messageType = UserMessage, cm_createdAt = 2\<rparr>,
     \<lparr>cm_user = 7, cm_sessionId = js ''s1'', cm_message = js ''ok'',
       cm_messageType = AiMessage, cm_createdAt = 3\<rparr>]"

definition example_query :: history_query where
  "example_query = \<lparr>q_sessionId = None, q_page = None, q_limit = None\<rparr>"

section \<open>Appointments\<close>

subsection \<open>The appointment document\<close>

text \<open>
  An appointment as the dashboards read it (\<open>interface Appointment\<close> of the user and the
  therapist dashboard) and as the data model lists it: a user, a therapist, a date with a
  time window, a status, session type and mode, an amount, and the rating and review
  given after the session. Dates are day numbers, times of day are minutes after midnight.
\<close>

datatype status = Pending | Confirmed | Completed | Cancelled

record appointment =
  ap_id :: nat
  ap_user :: user_id
  ap_therapist :: nat
  ap_date :: nat
  ap_startTime :: nat
  ap_endTime :: nat
  ap_status :: status
  ap_sessionType :: js_string
  ap_sessionMode :: js_string
  ap_amount :: nat
  ap_rating :: "nat option"
  ap_review :: "js_string option"

subsection \<open>The therapist dashboard (TherapistDashboard)\<close>

text \<open>
  The button \<open>Update Status\<close> is rendered for an appointment only under
  \<open>appointment.status === 'pending'\<close>. The dialog it opens has two actions, which call
  \<open>handleStatusUpdate\<close> with \<open>'confirmed'\<close> and with \<open>'cancelled'\<close>.
\<close>

definition updateStatusOffered :: "appointment \<Rightarrow> bool" where
  "updateStatusOffered a \<longleftrightarrow> ap_status a = Pending"

text \<open>
  \<open>handleStatusUpdate\<close> sends \<open>PUT /therapist/appointments/:id/status\<close> with the new status;
  the model keeps the request it sends.
\<close>

definition handleStatusUpdate :: "nat \<Rightarrow> status \<Rightarrow> nat \<times> status" where
  "handleStatusUpdate appointmentId status = (appointmentId, status)"

record therapist_dashboard =
  td_appointments :: "appointment list"
  td_selectedAppointment :: "appointment option"
  td_statusDialogOpen :: bool

datatype therapist_click =
    ClickUpdateStatus nat
  | ClickConfirm
  | ClickCancelAppointment
  | ClickCloseDialog

text \<open>
  A click gives the next state of the dashboard and the request sent, if any: the
  appointment's id with the new status. \<open>ClickUpdateStatus i\<close> is a click
  on the button of the \<open>i\<close>-th appointment listed, which exists only where the button is
  rendered. The two actions of the dialog exist while it is open, and do nothing without a
  selected appointment.
\<close>

definition therapist_click ::
  "therapist_dashboard \<Rightarrow> therapist_click \<Rightarrow> therapist_dashboard \<times> (nat \<times> status) option" where
  "therapist_click d c =
     (case c of
        ClickUpdateStatus i \<Rightarrow>
          if i < length (td_appointments d) \<and> updateStatusOffered (td_appointments d ! i)
          then (d\<lparr>td_selectedAppointment := Some (td_appointments d ! i),
                  td_statusDialogOpen := True\<rparr>, None)
          else (d, None)
      | ClickConfirm \<Rightarrow>
          (case td_selectedAppointment d of
             Some a \<Rightarrow> if td_statusDialogOpen d
                       then (d, Some (handleStatusUpdate (ap_id a) Confirmed))
                       else (d, None)
           | None \<Rightarrow> (d, None))
      | ClickCancelAppointment \<Rightarrow>
          (case td_selectedAppointment d of
             Some a \<Rightarrow> if td_statusDialogOpen d
                       then (d, Some (handleStatusUpdate (ap_id a) Cancelled))
                       else (d, None)
           | None \<Rightarrow> (d, None))
      | ClickCloseDialog \<Rightarrow> (d\<lparr>td_statusDialogOpen := False\<rparr>, None))"

text \<open>
  After a successful update \<open>handleStatusUpdate\<close> reloads the list, closes the dialog and
  clears the selection; after a failed one it only shows a message.
\<close>

definition statusUpdateSucceeded :: "therapist_dashboard \<Rightarrow> appointment list \<Rightarrow> therapist_dashboard" where
  "statusUpdateSucceeded d loaded =
     \<lparr>td_appointments = loaded, td_selectedAppointment = None, td_statusDialogOpen = False\<rparr>"

text \<open>
  The selected appointment, if there is one, is one the button was rendered for.
\<close>

definition selection_pending :: "therapist_dashboard \<Rightarrow> bool" where
  "selection_pending d \<longleftrightarrow>
     (case td_selectedAppointment d of None \<Rightarrow> True | Some a \<Rightarrow> updateStatusOffered a)"

subsection \<open>The user dashboard (UserDashboard)\<close>

text \<open>
  The button \<open>Rate\<close> is rendered under
  \<open>appointment.status === 'completed' && !appointment.rating\<close>; a rating of zero is falsy
  like a missing one.
\<close>

definition rateOffered :: "appointment \<Rightarrow> bool" where
  "rateOffered a \<longleftrightarrow>
     ap_status a = Completed \<and> (case ap_rating a of None \<Rightarrow> True | Some n \<Rightarrow> n = 0)"

record rating_dialog =
  rd_open :: bool
  rd_selectedAppointmentId :: "nat option"
  rd_ratingValue :: "nat option"
  rd_reviewText :: js_string

definition handleOpenRatingDialog :: "nat \<Rightarrow> rating_dialog" where
  "handleOpenRatingDialog appointmentId =
     \<lparr>rd_open = True, rd_selectedAppointmentId = Some appointmentId,
      rd_ratingValue = None, rd_reviewText = []\<rparr>"

text \<open>
  \<open>handleSubmitRating\<close> returns at once under \<open>!selectedAppointmentId || !ratingValue\<close>;
  otherwise it sends the review: the appointment's id, the rating and the text.
\<close>

definition handleSubmitRating :: "rating_dialog \<Rightarrow> (nat \<times> nat \<times> js_string) option" where
  "handleSubmitRating d =
     (case (rd_selectedAppointmentId d, rd_ratingValue d) of
        (Some i, Some r) \<Rightarrow> if r = 0 then None else Some (i, r, rd_reviewText d)
      | _ \<Rightarrow> None)"

subsection \<open>The appointment routes of the server\<close>

text \<open>
  Modelled from the spec: the routes behind \<open>PUT /therapist/appointments/:id/status\<close>,
  \<open>PUT /appointments/:id/cancel\<close> and \<open>POST /user/appointments/:id/review\<close> are missing from
  the sources, which hold only their callers. The model follows the specification's words:
  "States: pending \<rightarrow> confirmed \<rightarrow> completed; pending/confirmed \<rightarrow> cancelled", "immutable
  once completed except for the review field" and "Appointment review can be submitted only
  once per completed appointment".
\<close>

fun transition_allowed :: "status \<Rightarrow> status \<Rightarrow> bool" where
  "transition_allowed Pending Confirmed = True"
| "transition_allowed Confirmed Completed = True"
| "transition_allowed Pending Cancelled = True"
| "transition_allowed Confirmed Cancelled = True"
| "transition_allowed _ _ = False"

text \<open>
  The three requests on an existing appointment, as the client's API module sends them:
  a new status, a cancellation, and a review with its rating and text.
\<close>

datatype appointment_request =
    UpdateStatus status
  | CancelAppointment
  | ReviewAppointment nat js_string

datatype rejection = Rejected

text \<open>
  Modelled from the spec: the handlers of these three requests, missing from the sources.
  A status changes only along an allowed transition ("status transitions driven by
  therapist action or cancellation"); a review is taken for a completed appointment that
  has no rating yet ("only once per completed appointment"); any other request is rejected
  and changes nothing ("failures are reported to the caller").
\<close>

fun handle_request :: "appointment \<Rightarrow> appointment_request \<Rightarrow> rejection + appointment" where
  "handle_request a (UpdateStatus s) =
     (if transition_allowed (ap_status a) s then Inr (a\<lparr>ap_status := s\<rparr>) else Inl Rejected)"
| "handle_request a CancelAppointment =
     (if transition_allowed (ap_status a) Cancelled then Inr (a\<lparr>ap_status := Cancelled\<rparr>)
      else Inl Rejected)"
| "handle_request a (ReviewAppointment rating review) =
     (if ap_status a = Completed \<and> ap_rating a = None
      then Inr (a\<lparr>ap_rating := Some rating, ap_review := Some review\<rparr>)
      else Inl Rejected)"

text \<open>
  Modelled from the spec: the life of one appointment under a sequence of requests, each
  handled as above; a rejected request leaves the appointment as it was.
\<close>

fun lifecycle :: "appointment \<Rightarrow> appointment_request list \<Rightarrow> appointment" where
  "lifecycle a [] = a"
| "lifecycle a (r # rs) =
     (case handle_request a r of
        Inl _ \<Rightarrow> lifecycle a rs
      | Inr a' \<Rightarrow> lifecycle a' rs)"

text \<open>An appointment without its rating and review: the fields a completed one keeps.\<close>

definition without_review :: "appointment \<Rightarrow> appointment" where
  "without_review a = a\<lparr>ap_rating := None, ap_review := None\<rparr>"

subsection \<open>Weekly availability (TherapistAvailability)\<close>

text \<open>
  The weekly schedule the therapist edits: for each day of \<open>daysOfWeek\<close> a start, an end and
  a switch (\<open>interface DayAvailability\<close>). The source writes times as \<open>'HH:mm'\<close>;
  \<open>hhmm h m\<close> is that time in minutes after midnight. \<open>defaultAvailability\<close> is the
  constant of that name in the source.
\<close>

datatype weekday = Monday | Tuesday | Wednesday | Thursday | Friday | Saturday | Sunday

record day_availability =
  da_start :: nat
  da_end :: nat
  da_available :: bool

type_synonym availability = "weekday \<Rightarrow> day_availability"

definition hhmm :: "nat \<Rightarrow> nat \<Rightarrow> nat" where
  "hhmm h m = 60 * h + m"

definition defaultAvailability :: availability where
  "defaultAvailability day =
     (case day of
        Saturday \<Rightarrow> \<lparr>da_start = hhmm 10 0, da_end = hhmm 15 0, da_available = False\<rparr>
      | Sunday \<Rightarrow> \<lparr>da_start = hhmm 10 0, da_end = hhmm 15 0, da_available = False\<rparr>
      | _ \<Rightarrow> \<lparr>da_start = hhmm 9 0, da_end = hhmm 17 0, da_available = True\<rparr>)"

text \<open>A slot as the booking dialog receives it (\<open>interface TimeSlot\<close>).\<close>

record time_slot =
  ts_startTime :: nat
  ts_endTime :: nat

subsection \<open>Available slots\<close>

text \<open>
  Modelled from the spec: the route \<open>GET /appointments/available-slots/:therapistId\<close> is
  missing from the sources; \<open>loadAvailableSlots\<close> only shows what it returns. The
  definitions of this subsection follow section 4.1: "enumerate fixed-duration slots across
  the day's enabled window, exclude slots overlapping existing appointments", the existing
  appointments being the confirmed and pending ones of the therapist on that date.
\<close>

text \<open>
  Modelled from the spec: the day of the week of a date, which selects the day's window.
  Day number \<open>0\<close> is a Thursday.
\<close>

definition weekday_of :: "nat \<Rightarrow> weekday" where
  "weekday_of date =
     [Thursday, Friday, Saturday, Sunday, Monday, Tuesday, Wednesday] ! (date mod 7)"

text \<open>
  Modelled from the spec: "enumerate fixed-duration slots across the day's enabled window".
  The slots start at the window's start and follow each other; the last one ends within
  the window. The slot length is a parameter; a length of zero gives no slot.
\<close>

definition slots_in_window :: "nat \<Rightarrow> nat \<Rightarrow> nat \<Rightarrow> time_slot list" where
  "slots_in_window start finish len =
     (if len = 0 then []
      else map (\<lambda>k. \<lparr>ts_startTime = start + k * len, ts_endTime = start + (k + 1) * len\<rparr>)
             [0 ..< (finish - start) div len])"

text \<open>
  Modelled from the spec: a slot overlaps an appointment when their time windows share a
  moment; an appointment occupies the therapist's date when it is theirs, on that date, and
  confirmed or pending.
\<close>

definition overlaps :: "time_slot \<Rightarrow> appointment \<Rightarrow> bool" where
  "overlaps s a \<longleftrightarrow> ts_startTime s < ap_endTime a \<and> ap_startTime a < ts_endTime s"

definition occupies :: "nat \<Rightarrow> nat \<Rightarrow> appointment \<Rightarrow> bool" where
  "occupies therapist date a \<longleftrightarrow>
     ap_therapist a = therapist \<and> ap_date a = date \<and>
     (ap_status a = Confirmed \<or> ap_status a = Pending)"

text \<open>
  Modelled from the spec: the slots of the day's window, if the day is enabled, without
  those that overlap an occupying appointment.
\<close>

definition available_slots ::
  "availability \<Rightarrow> appointment list \<Rightarrow> nat \<Rightarrow> nat \<Rightarrow> nat \<Rightarrow> time_slot list" where
  "available_slots av appointments therapist date len =
     (let day = av (weekday_of date) in
      if da_available day
      then filter (\<lambda>s. \<not> list_ex (\<lambda>a. occupies therapist date a \<and> overlaps s a) appointments)
             (slots_in_window (da_start day) (da_end day) len)
      else [])"

subsection \<open>An appointment for examples\<close>

definition example_appointment :: appointment where
  "example_appointment =
     \<lparr>ap_id = 1, ap_user = 7, ap_therapist = 3, ap_date = 4,
      ap_startTime = hhmm 10 0, ap_endTime = hhmm 11 0, ap_status = Pending,
      ap_sessionType = js ''individual'', ap_sessionMode = js ''video'', ap_amount = 50,
      ap_rating = None, ap_review = None\<rparr>"

section \<open>Properties of the chatbot classifier\<close>

text \<open>\<open>str_includes\<close> computes the contiguous-sublist relation.\<close>

lemma str_includes_sublist: "str_includes t w \<longleftrightarrow> sublist w t"
  by (induction t) (simp_all add: sublist_Cons_right)

lemma pick_in_range:
  assumes "0 \<le> r" "r < 1" "arr \<noteq> []"
  shows "\<exists>x. pick r arr = Some x \<and> x \<in> set arr"
proof -
  let ?n = "length arr"
  have n: "0 < real ?n" using assms(3) by simp
  have "r * real ?n < real ?n" using assms(2) n by simp
  then have up: "\<lfloor>r * real ?n\<rfloor> < int ?n" by (simp add: floor_less_iff)
  have lo: "0 \<le> \<lfloor>r * real ?n\<rfloor>" using assms(1) by simp
  from lo up have "nat \<lfloor>r * real ?n\<rfloor> < ?n" by linarith
  then show ?thesis using lo up by (simp add: pick_def Let_def)
qed

lemma canned_nonempty:
  "panic \<noteq> []" "anxiety \<noteq> []" "lowMood \<noteq> []" "stress \<noteq> []" "sleep \<noteq> []" "anger \<noteq> []"
  "relationship \<noteq> []" "workStudy \<noteq> []" "physical \<noteq> []" "greetings \<noteq> []" "generic \<noteq> []"
  by (simp_all add: panic_def anxiety_def lowMood_def stress_def sleep_def anger_def
        relationship_def workStudy_def physical_def greetings_def generic_def)

lemma crisis_single: "crisis = [crisis ! 0]"
  by (simp add: crisis_def)

text \<open>
  C1: whenever the lowercased message contains one of the crisis keywords, the classifier
  returns the one fixed crisis message, whatever other keywords the message contains and
  whatever the random draw is.
\<close>

theorem crisis_keyword_returns_safety_message:
  "has (toLowerCase message) crisis_keywords \<Longrightarrow>
   \<exists>m. crisis = [m] \<and> generateLocalResponse toLowerCase r message = Some m"
proof -
  assume h: "has (toLowerCase message) crisis_keywords"
  have "generateLocalResponse toLowerCase r message = Some (crisis ! 0)"
    using h by (simp add: generateLocalResponse_def crisis_keywords_def)
  with crisis_single show ?thesis by blast
qed

text \<open>
  A message with a crisis phrase in capitals, which also names work, stress and panic.
\<close>

theorem crisis_keyword_returns_safety_message_witness:
  "has (toLowerCase_ascii (js ''I want to END IT all, work stress and panic'')) crisis_keywords \<and>
   (\<exists>m. crisis = [m] \<and>
      generateLocalResponse toLowerCase_ascii (1/2) (js ''I want to END IT all, work stress and panic'') = Some m)"
proof -
  have h: "has (toLowerCase_ascii (js ''I want to END IT all, work stress and panic'')) crisis_keywords"
    by (simp add: has_def toLowerCase_ascii_def js_def crisis_keywords_def)
  show ?thesis
    using h crisis_keyword_returns_safety_message
      [of toLowerCase_ascii "js ''I want to END IT all, work stress and panic''" "1/2"]
    by simp
qed

lemma response_in_bucket:
  assumes r: "0 \<le> r" "r < 1"
  shows "\<exists>resp. generateLocalResponse toLowerCase r message = Some resp \<and>
           resp \<in> set (spec_bucket_responses (toLowerCase message))"
proof -
  note defs = generateLocalResponse_def spec_bucket_responses_def spec_buckets_def crisis_keywords_def
  note p = pick_in_range [of r, OF r]
  have c: "crisis ! 0 \<in> set crisis" by (subst (2) crisis_single) simp
  let ?c1 = "has (toLowerCase message) [js ''suicide'', js ''self harm'', js ''hurt myself'', js ''end it'', js ''kill myself'']"
  let ?c2 = "has (toLowerCase message) [js ''panic'', js ''panic attack'', js ''heart racing'']"
  let ?c3 = "has (toLowerCase message) [js ''anxiety'', js ''anxious'', js ''worry'', js ''worried'']"
  let ?c4 = "has (toLowerCase message) [js ''depress'', js ''sad'', js ''down'', js ''empty'']"
  let ?c5 = "has (toLowerCase message) [js ''stress'', js ''overwhelmed'', js ''overwhelm'', js ''burnout'']"
  let ?c6 = "has (toLowerCase message) [js ''sleep'', js ''insomnia'', js ''can't sleep'', js ''cant sleep'']"
  let ?c7 = "has (toLowerCase message) [js ''angry'', js ''anger'', js ''rage'']"
  let ?c8 = "has (toLowerCase message) [js ''partner'', js ''relationship'', js ''breakup'', js ''friend'', js ''family'']"
  let ?c9 = "has (toLowerCase message) [js ''work'', js ''office'', js ''deadline'', js ''study'', js ''exam'', js ''college'', js ''school'']"
  let ?c10 = "has (toLowerCase message) [js ''fever'', js ''headache'', js ''pain'', js ''sick'', js ''ill'', js ''nausea'']"
  let ?c11 = "has (toLowerCase message) [js ''hi'', js ''hello'', js ''hey'']"
  consider (c1)  "?c1"
    | (c2) "\<not> ?c1" "?c2"
    | (c3) "\<not> ?c1" "\<not> ?c2" "?c3"
    | (c4) "\<not> ?c1" "\<not> ?c2" "\<not> ?c3" "?c4"
    | (c5) "\<not> ?c1" "\<not> ?c2" "\<not> ?c3" "\<not> ?c4" "?c5"
    | (c6) "\<not> ?c1" "\<not> ?c2" "\<not> ?c3" "\<not> ?c4" "\<not> ?c5" "?c6"
    | (c7) "\<not> ?c1" "\<not> ?c2" "\<not> ?c3" "\<not> ?c4" "\<not> ?c5" "\<not> ?c6" "?c7"
    | (c8) "\<not> ?c1" "\<not> ?c2" "\<not> ?c3" "\<not> ?c4" "\<not> ?c5" "\<not> ?c6" "\<not> ?c7" "?c8"
    | (c9) "\<not> ?c1" "\<not> ?c2" "\<not> ?c3" "\<not> ?c4" "\<not> ?c5" "\<not> ?c6" "\<not> ?c7" "\<not> ?c8" "?c9"
    | (c10) "\<not> ?c1" "\<not> ?c2" "\<not> ?c3" "\<not> ?c4" "\<not> ?c5" "\<not> ?c6" "\<not> ?c7" "\<not> ?c8" "\<not> ?c9" "?c10"
    | (c11) "\<not> ?c1" "\<not> ?c2" "\<not> ?c3" "\<not> ?c4" "\<not> ?c5" "\<not> ?c6" "\<not> ?c7" "\<not> ?c8" "\<not> ?c9" "\<not> ?c10" "?c11"
    | (none) "\<not> ?c1" "\<not> ?c2" "\<not> ?c3" "\<not> ?c4" "\<not> ?c5" "\<not> ?c6" "\<not> ?c7" "\<not> ?c8" "\<not> ?c9" "\<not> ?c10" "\<not> ?c11"
    by blast
  then show ?thesis
  proof cases
    case c1
    then show ?thesis using c by (simp add: defs)
  next
    case c2
    then show ?thesis using p [OF canned_nonempty(1)] by (simp add: defs)
  next
    case c3
    then show ?thesis using p [OF canned_nonempty(2)] by (simp add: defs)
  next
    case c4
    then show ?thesis using p [OF canned_nonempty(3)] by (simp add: defs)
  next
    case c5
    then show ?thesis using p [OF canned_nonempty(4)] by (simp add: defs)
  next
    case c6
    then show ?thesis using p [OF canned_nonempty(5)] by (simp add: defs)
  next
    case c7
    then show ?thesis using p [OF canned_nonempty(6)] by (simp add: defs)
  next
    case c8
    then show ?thesis using p [OF canned_nonempty(7)] by (simp add: defs)
  next
    case c9
    then show ?thesis using p [OF canned_nonempty(8)] by (simp add: defs)
  next
    case c10
    then show ?thesis using p [OF canned_nonempty(9)] by (simp add: defs)
  next
    case c11
    then show ?thesis using p [OF canned_nonempty(10)] by (simp add: defs)
  next
    case none
    then show ?thesis using p [OF canned_nonempty(11)] by (simp add: defs)
  qed
qed

text \<open>
  C2: for a random draw in \<open>[0, 1)\<close> the classifier returns an element of the response list
  of the first bucket, in the order crisis, panic, anxiety, low mood, stress, sleep, anger,
  relationship, work/study, physical, greeting, that has a keyword in the lowercased
  message, and an element of the generic list when no bucket has one. The result is a
  function of the lowercased message and the draw alone: two messages with the same
  lowercase form get the same answer.
\<close>

theorem response_from_first_matching_bucket:
  "(0 \<le> r \<and> r < 1 \<longrightarrow>
      (\<exists>resp. generateLocalResponse toLowerCase r message = Some resp \<and>
         resp \<in> set (spec_bucket_responses (toLowerCase message)))) \<and>
   (toLowerCase message = toLowerCase message' \<longrightarrow>
      generateLocalResponse toLowerCase r message = generateLocalResponse toLowerCase r message')"
proof (intro conjI impI)
  assume "0 \<le> r \<and> r < 1"
  then show "\<exists>resp. generateLocalResponse toLowerCase r message = Some resp \<and>
         resp \<in> set (spec_bucket_responses (toLowerCase message))"
    using response_in_bucket by blast
next
  assume "toLowerCase message = toLowerCase message'"
  then show "generateLocalResponse toLowerCase r message = generateLocalResponse toLowerCase r message'"
    by (simp add: generateLocalResponse_def)
qed

text \<open>
  Two spellings of one message: both fall into the anxiety bucket, before low mood.
\<close>

theorem response_from_first_matching_bucket_witness:
  "(0 \<le> (1/2::real) \<and> (1/2::real) < 1) \<and>
   toLowerCase_ascii (js ''I feel ANXIOUS and sad'') = toLowerCase_ascii (js ''i feel anxious AND SAD'') \<and>
   generateLocalResponse toLowerCase_ascii (1/2) (js ''I feel ANXIOUS and sad'') = Some (anxiety ! 1) \<and>
   anxiety ! 1 \<in> set (spec_bucket_responses (toLowerCase_ascii (js ''I feel ANXIOUS and sad''))) \<and>
   generateLocalResponse toLowerCase_ascii (1/2) (js ''I feel ANXIOUS and sad'') =
     generateLocalResponse toLowerCase_ascii (1/2) (js ''i feel anxious AND SAD'')"
proof -
  have r: "0 \<le> (1/2::real) \<and> (1/2::real) < 1" by simp
  have e: "toLowerCase_ascii (js ''I feel ANXIOUS and sad'') = toLowerCase_ascii (js ''i feel anxious AND SAD'')"
    by (simp add: toLowerCase_ascii_def js_def)
  have v: "generateLocalResponse toLowerCase_ascii (1/2) (js ''I feel ANXIOUS and sad'') = Some (anxiety ! 1)"
    by (simp add: generateLocalResponse_def toLowerCase_ascii_def js_def has_def pick_def anxiety_def)
  show ?thesis
    using r e v response_from_first_matching_bucket
      [of "1/2" toLowerCase_ascii "js ''I feel ANXIOUS and sad''" "js ''i feel anxious AND SAD''"]
    by auto
qed
section \<open>Properties of the chatbot routes\<close>

lemma trim_Nil_iff: "trim s = [] \<longleftrightarrow> (\<forall>c\<in>set s. isWhitespace c)"
proof
  assume t: "trim s = []"
  show "\<forall>c\<in>set s. isWhitespace c"
  proof (rule ccontr)
    assume "\<not> (\<forall>c\<in>set s. isWhitespace c)"
    then have ne: "dropWhile isWhitespace s \<noteq> []" by (simp add: dropWhile_eq_Nil_conv)
    then have "\<not> isWhitespace (hd (dropWhile isWhitespace s))" by (rule hd_dropWhile)
    moreover have "hd (dropWhile isWhitespace s) \<in> set (rev (dropWhile isWhitespace s))"
      using ne by simp
    ultimately have "dropWhile isWhitespace (rev (dropWhile isWhitespace s)) \<noteq> []"
      by (auto simp: dropWhile_eq_Nil_conv simp del: set_rev)
    then show False using t by (simp add: trim_def)
  qed
next
  assume "\<forall>c\<in>set s. isWhitespace c"
  then have "dropWhile isWhitespace s = []" by (induction s) simp_all
  then show "trim s = []" by (simp only: trim_def rev.simps dropWhile.simps)
qed

lemma save_Some:
  "save db doc outcome = Some (db', stored) \<Longrightarrow>
   \<exists>t. outcome = Some t \<and> stored = doc\<lparr>cm_createdAt := t\<rparr> \<and> db' = db @ [stored]"
  by (cases outcome) (auto simp: save_def Let_def)

lemma post_send_400:
  "validationResult body \<noteq> [] \<Longrightarrow>
   post_send toLowerCase env db uid body = (db, Reply 400 (ValidationErrors (validationResult body)))"
  by (simp add: post_send_def Let_def)

lemma post_send_not_400:
  "validationResult body = [] \<Longrightarrow> snd (post_send toLowerCase env db uid body) \<noteq> Reply 400 r"
  by (auto simp: post_send_def Let_def split: option.splits prod.splits)

lemma post_send_200:
  assumes "post_send toLowerCase env db uid body = (db', Reply 200 (Sent ai sid))"
  shows "validationResult body = [] \<and> sid = session_or_new (body_sessionId body) (env_now env) \<and>
    (\<exists>t1 t2. env_user_save env = Some t1 \<and> env_ai_save env = Some t2 \<and>
       (\<exists>resp. generateLocalResponse toLowerCase (env_random env) (sanitized_message body) = Some resp \<and>
         ai = \<lparr>cm_user = uid, cm_sessionId = sid, cm_message = resp,
                cm_messageType = AiMessage, cm_createdAt = t2\<rparr> \<and>
         db' = db @ [\<lparr>cm_user = uid, cm_sessionId = sid, cm_message = sanitized_message body,
                cm_messageType = UserMessage, cm_createdAt = t1\<rparr>, ai]))"
  using assms
  by (auto simp: post_send_def Let_def save_def split: option.splits prod.splits if_splits)

lemma post_send_prefix: "prefix db (fst (post_send toLowerCase env db uid body))"
  by (auto simp: post_send_def Let_def save_def split: option.splits prod.splits)

lemma chatbot_step_prefix: "prefix db (chatbot_step toLowerCase db req)"
  by (auto simp: chatbot_step_def post_send_prefix split: prod.splits chatbot_request.splits)

lemma chatbot_run_prefix: "prefix db (chatbot_run toLowerCase db reqs)"
  unfolding chatbot_run_def
proof (induction reqs arbitrary: db)
  case Nil
  show ?case by simp
next
  case (Cons q qs)
  have "prefix db (chatbot_step toLowerCase db q)" by (rule chatbot_step_prefix)
  also have "prefix \<dots> (foldl (chatbot_step toLowerCase) (chatbot_step toLowerCase db q) qs)"
    by (rule Cons.IH)
  finally show ?case by simp
qed

lemma history_filter_split:
  "filter (history_filter uid sid) db =
   filter (\<lambda>m. case sid of None \<Rightarrow> True | Some s \<Rightarrow> if s \<noteq> [] then cm_sessionId m = s else True)
     (filter (\<lambda>m. cm_user m = uid) db)"
  by (auto simp: history_filter_def intro!: filter_cong split: option.splits)

lemma limit_docs_subset: "set (limit_docs l xs) \<subseteq> set xs"
  by (auto simp: limit_docs_def dest: in_set_takeD)

lemma history_messages_subset:
  assumes "get_history db uid q = Reply code r"
  shows "set (h_messages r) \<subseteq> {m \<in> set db. cm_user m = uid}"
proof -
  let ?matching = "filter (history_filter uid (q_sessionId q)) db"
  let ?l = "case q_limit q of None \<Rightarrow> 50 | Some l \<Rightarrow> l"
  let ?k = "nat (((case q_page q of None \<Rightarrow> 1 | Some p \<Rightarrow> p) - 1) * ?l)"
  have "h_messages r = rev (limit_docs ?l (drop ?k (sort_newest_first ?matching)))"
    using assms by (auto simp: get_history_def Let_def split: if_splits)
  then have "set (h_messages r) \<subseteq> set (sort_newest_first ?matching)"
    using limit_docs_subset [of ?l "drop ?k (sort_newest_first ?matching)"]
      set_drop_subset [of ?k "sort_newest_first ?matching"] by auto
  also have "\<dots> = set ?matching" by (simp add: sort_newest_first_def)
  also have "\<dots> \<subseteq> {m \<in> set db. cm_user m = uid}" by (auto simp: history_filter_def)
  finally show ?thesis .
qed

lemma group_by_session_origin:
  assumes "s \<in> set (group_by_session ms)"
  shows "\<exists>m\<in>set ms. cm_sessionId m = s_id s \<and> s_lastMessage s = cm_message m \<and>
           s_lastTimestamp s = cm_createdAt m"
proof -
  from assms obtain sid where sid: "sid \<in> set (map cm_sessionId ms)"
    and s: "s = (let g = filter (\<lambda>m. cm_sessionId m = sid) ms
                 in \<lparr>s_id = sid, s_lastMessage = cm_message (last g),
                     s_lastTimestamp = cm_createdAt (last g)\<rparr>)"
    by (auto simp: group_by_session_def)
  let ?g = "filter (\<lambda>m. cm_sessionId m = sid) ms"
  from sid have ne: "?g \<noteq> []" by (auto simp: filter_empty_conv)
  then have "last ?g \<in> set ?g" by (rule last_in_set)
  then have "last ?g \<in> set ms" "cm_sessionId (last ?g) = sid" by auto
  then show ?thesis using s by (auto simp: Let_def)
qed

lemma sessions_origin:
  assumes "get_sessions db uid = Reply code ss" "s \<in> set ss"
  shows "\<exists>m\<in>set db. cm_user m = uid \<and> cm_sessionId m = s_id s \<and>
           s_lastMessage s = cm_message m \<and> s_lastTimestamp s = cm_createdAt m"
proof -
  from assms have "s \<in> set (group_by_session (filter (\<lambda>m. cm_user m = uid) db))"
    by (auto simp: get_sessions_def)
  from group_by_session_origin [OF this] show ?thesis by auto
qed

lemma history_depends_on_own_rows:
  assumes "filter (\<lambda>m. cm_user m = uid) db = filter (\<lambda>m. cm_user m = uid) db2"
  shows "get_history db uid q = get_history db2 uid q"
  using assms by (simp add: get_history_def history_filter_split)

lemma sessions_depend_on_own_rows:
  assumes "filter (\<lambda>m. cm_user m = uid) db = filter (\<lambda>m. cm_user m = uid) db2"
  shows "get_sessions db uid = get_sessions db2 uid"
  using assms by (simp add: get_sessions_def)

lemma post_send_own_rows:
  "\<exists>rows. fst (post_send toLowerCase env db uid body) = db @ rows \<and> (\<forall>m\<in>set rows. cm_user m = uid)"
  by (auto simp: post_send_def Let_def save_def split: option.splits prod.splits)

lemma chatbot_step_own_rows:
  "\<exists>rows. chatbot_step toLowerCase db (uid, req) = db @ rows \<and> (\<forall>m\<in>set rows. cm_user m = uid)"
proof (cases req)
  case (Send env body)
  then show ?thesis using post_send_own_rows [of toLowerCase env db uid body]
    by (simp add: chatbot_step_def)
qed (simp_all add: chatbot_step_def)

lemma other_user_step_keeps_rows:
  assumes "uid' \<noteq> uid"
  shows "filter (\<lambda>m. cm_user m = uid) (chatbot_step toLowerCase db (uid', req)) =
         filter (\<lambda>m. cm_user m = uid) db"
proof -
  obtain rows where r: "chatbot_step toLowerCase db (uid', req) = db @ rows"
    "\<forall>m\<in>set rows. cm_user m = uid'"
    using chatbot_step_own_rows by blast
  then have "filter (\<lambda>m. cm_user m = uid) rows = []" using assms by (auto simp: filter_empty_conv)
  with r(1) show ?thesis by simp
qed

lemma post_send_reply_independent_of_db:
  "snd (post_send toLowerCase env db uid body) = snd (post_send toLowerCase env db2 uid body)"
  by (auto simp: post_send_def Let_def save_def split: option.splits prod.splits)

text \<open>
  C7: an authenticated request whose message is empty or consists of white space only is
  answered with status 400 and a list of field errors that holds the error of field
  \<open>message\<close>, and the collection is left as it was. A message with a character that is
  not white space raises no error of field \<open>message\<close>, and the request is not answered
  with 400 unless the session id is rejected.
\<close>

theorem blank_message_rejected_with_400:
  "(body_message body = Some m \<and> (\<forall>c\<in>set m. isWhitespace c) \<longrightarrow>
      (\<exists>errs. post_send toLowerCase env db uid body = (db, Reply 400 (ValidationErrors errs)) \<and>
         \<lparr>err_path = ''message'', err_msg = ''Message cannot be empty.''\<rparr> \<in> set errs)) \<and>
   (body_message body = Some m \<and> (\<exists>c\<in>set m. \<not> isWhitespace c) \<longrightarrow>
      message_errors body = [] \<and>
      (sessionId_errors body = [] \<longrightarrow>
         (\<forall>r. snd (post_send toLowerCase env db uid body) \<noteq> Reply 400 r)))"
proof (intro conjI impI)
  assume h: "body_message body = Some m \<and> (\<forall>c\<in>set m. isWhitespace c)"
  then have "sanitized_message body = []" by (simp add: sanitized_message_def trim_Nil_iff)
  then have e: "message_errors body = [\<lparr>err_path = ''message'', err_msg = ''Message cannot be empty.''\<rparr>]"
    by (simp add: message_errors_def)
  then have "validationResult body \<noteq> []" by (simp add: validationResult_def)
  from post_send_400 [OF this] e
  show "\<exists>errs. post_send toLowerCase env db uid body = (db, Reply 400 (ValidationErrors errs)) \<and>
         \<lparr>err_path = ''message'', err_msg = ''Message cannot be empty.''\<rparr> \<in> set errs"
    by (auto simp: validationResult_def)
next
  assume h: "body_message body = Some m \<and> (\<exists>c\<in>set m. \<not> isWhitespace c)"
  then have "sanitized_message body \<noteq> []" by (auto simp: sanitized_message_def trim_Nil_iff)
  then show e: "message_errors body = []" by (simp add: message_errors_def)
  assume "sessionId_errors body = []"
  with e have "validationResult body = []" by (simp add: validationResult_def)
  then show "\<forall>r. snd (post_send toLowerCase env db uid body) \<noteq> Reply 400 r"
    using post_send_not_400 by blast
qed

lemma isWhitespace_examples:
  "isWhitespace 0x20" "isWhitespace 0x09" "\<not> isWhitespace 0x68" "\<not> isWhitespace 0x69"
  by (simp_all add: isWhitespace_def)

text \<open>
  A message of a space, a tab and a space is rejected and nothing is stored; the message
  \<open>" hi"\<close> passes.
\<close>

theorem blank_message_rejected_with_400_witness:
  "post_send toLowerCase_ascii
      \<lparr>env_now = 1700000000000, env_random = 1/2, env_user_save = Some 5, env_ai_save = Some 6\<rparr>
      example_db 7 \<lparr>body_message = Some [0x20, 0x09, 0x20], body_sessionId = None\<rparr> =
     (example_db, Reply 400 (ValidationErrors
            [\<lparr>err_path = ''message'', err_msg = ''Message cannot be empty.''\<rparr>])) \<and>
   message_errors \<lparr>body_message = Some [0x20, 0x68, 0x69], body_sessionId = None\<rparr> = [] \<and>
   snd (post_send toLowerCase_ascii
      \<lparr>env_now = 1700000000000, env_random = 1/2, env_user_save = Some 5, env_ai_save = Some 6\<rparr>
      example_db 7 \<lparr>body_message = Some [0x20, 0x68, 0x69], body_sessionId = None\<rparr>) \<noteq>
     Reply 400 (ValidationErrors [])"
proof -
  let ?env = "\<lparr>env_now = 1700000000000, env_random = 1/2, env_user_save = Some 5, env_ai_save = Some 6\<rparr>"
  let ?blank = "\<lparr>body_message = Some [0x20, 0x09, 0x20], body_sessionId = None\<rparr>"
  let ?hi = "\<lparr>body_message = Some [0x20, 0x68, 0x69], body_sessionId = None\<rparr>"
  have b: "body_message ?blank = Some [0x20, 0x09, 0x20] \<and> (\<forall>c\<in>set [0x20, 0x09, 0x20]. isWhitespace c)"
    by (simp add: isWhitespace_examples)
  have v: "validationResult ?blank = [\<lparr>err_path = ''message'', err_msg = ''Message cannot be empty.''\<rparr>]"
    by (simp add: validationResult_def message_errors_def sessionId_errors_def
          sanitized_message_def trim_def isWhitespace_examples)
  have h: "body_message ?hi = Some [0x20, 0x68, 0x69] \<and> (\<exists>c\<in>set [0x20, 0x68, 0x69]. \<not> isWhitespace c)"
    by (simp add: isWhitespace_examples)
  have s: "sessionId_errors ?hi = []" by (simp add: sessionId_errors_def)
  from blank_message_rejected_with_400 [of ?blank "[0x20, 0x09, 0x20]" toLowerCase_ascii ?env example_db 7] b
  obtain errs where "post_send toLowerCase_ascii ?env example_db 7 ?blank = (example_db, Reply 400 (ValidationErrors errs))"
    by blast
  moreover have "post_send toLowerCase_ascii ?env example_db 7 ?blank =
       (example_db, Reply 400 (ValidationErrors (validationResult ?blank)))"
    by (rule post_send_400) (simp add: v)
  ultimately have 1: "post_send toLowerCase_ascii ?env example_db 7 ?blank =
       (example_db, Reply 400 (ValidationErrors
            [\<lparr>err_path = ''message'', err_msg = ''Message cannot be empty.''\<rparr>]))"
    by (simp add: v)
  from blank_message_rejected_with_400 [of ?hi "[0x20, 0x68, 0x69]" toLowerCase_ascii ?env example_db 7] h s
  have 2: "message_errors ?hi = []"
    and 3: "snd (post_send toLowerCase_ascii ?env example_db 7 ?hi) \<noteq> Reply 400 (ValidationErrors [])"
    by blast+
  from 1 2 3 show ?thesis by blast
qed

lemma sanitized_message_Some:
  assumes "message_errors body = []"
  shows "\<exists>m. body_message body = Some m \<and> sanitized_message body = trim m"
proof (cases "body_message body")
  case None
  then have "sanitized_message body = []" by (simp add: sanitized_message_def trim_def)
  with assms show ?thesis by (simp add: message_errors_def)
next
  case (Some m)
  then show ?thesis by (simp add: sanitized_message_def)
qed

lemma session_or_new_given:
  "s \<noteq> [] \<Longrightarrow> session_or_new (Some (JString s)) now = s"
  by (simp add: session_or_new_def)

text \<open>
  C8, as the code has it: every call of \<open>POST /send\<close> answered with 200 appends exactly two
  documents, first one of type \<open>user\<close> holding the request's message with the white space
  around it trimmed, then one of type \<open>ai\<close> holding the classifier's response to that
  trimmed message; both belong to the caller and carry the session id of the answer,
  which is the request's session id when the request has a non-empty one. No sequence of
  chatbot requests, of any users, changes or removes a document already stored: the old
  collection is a prefix of the new one.
\<close>

theorem send_appends_user_and_ai_rows:
  "(post_send toLowerCase env db uid body = (db', Reply 200 (Sent ai sid)) \<longrightarrow>
      (\<exists>u m. db' = db @ [u, ai] \<and>
         body_message body = Some m \<and>
         cm_messageType u = UserMessage \<and> cm_message u = trim m \<and>
         cm_messageType ai = AiMessage \<and>
         generateLocalResponse toLowerCase (env_random env) (trim m) = Some (cm_message ai) \<and>
         cm_user u = uid \<and> cm_user ai = uid \<and>
         cm_sessionId u = sid \<and> cm_sessionId ai = sid \<and>
         (\<forall>s. body_sessionId body = Some (JString s) \<and> s \<noteq> [] \<longrightarrow> sid = s))) \<and>
   prefix db (chatbot_run toLowerCase db reqs)"
proof (intro conjI impI)
  assume a: "post_send toLowerCase env db uid body = (db', Reply 200 (Sent ai sid))"
  from post_send_200 [OF a] obtain t1 t2 resp where
    v: "validationResult body = []" and
    sid: "sid = session_or_new (body_sessionId body) (env_now env)" and
    resp: "generateLocalResponse toLowerCase (env_random env) (sanitized_message body) = Some resp" and
    ai: "ai = \<lparr>cm_user = uid, cm_sessionId = sid, cm_message = resp,
                cm_messageType = AiMessage, cm_createdAt = t2\<rparr>" and
    db': "db' = db @ [\<lparr>cm_user = uid, cm_sessionId = sid, cm_message = sanitized_message body,
                cm_messageType = UserMessage, cm_createdAt = t1\<rparr>, ai]"
    by blast
  from v have "message_errors body = []" by (simp add: validationResult_def)
  from sanitized_message_Some [OF this] obtain m where
    m: "body_message body = Some m" "sanitized_message body = trim m" by blast
  let ?u = "\<lparr>cm_user = uid, cm_sessionId = sid, cm_message = sanitized_message body,
                cm_messageType = UserMessage, cm_createdAt = t1\<rparr>"
  have s: "\<forall>s. body_sessionId body = Some (JString s) \<and> s \<noteq> [] \<longrightarrow> sid = s"
    using sid by (auto simp: session_or_new_given)
  have "db' = db @ [?u, ai] \<and> body_message body = Some m \<and>
         cm_messageType ?u = UserMessage \<and> cm_message ?u = trim m \<and>
         cm_messageType ai = AiMessage \<and>
         generateLocalResponse toLowerCase (env_random env) (trim m) = Some (cm_message ai) \<and>
         cm_user ?u = uid \<and> cm_user ai = uid \<and>
         cm_sessionId ?u = sid \<and> cm_sessionId ai = sid"
    using db' m resp ai by simp
  with s show "\<exists>u m. db' = db @ [u, ai] \<and>
         body_message body = Some m \<and>
         cm_messageType u = UserMessage \<and> cm_message u = trim m \<and>
         cm_messageType ai = AiMessage \<and>
         generateLocalResponse toLowerCase (env_random env) (trim m) = Some (cm_message ai) \<and>
         cm_user u = uid \<and> cm_user ai = uid \<and>
         cm_sessionId u = sid \<and> cm_sessionId ai = sid \<and>
         (\<forall>s. body_sessionId body = Some (JString s) \<and> s \<noteq> [] \<longrightarrow> sid = s)"
    by blast
next
  show "prefix db (chatbot_run toLowerCase db reqs)" by (rule chatbot_run_prefix)
qed

text \<open>
  A call whose message has white space around it and whose session id is the empty string.
\<close>

lemma example_send:
  "post_send toLowerCase_ascii
      \<lparr>env_now = 17, env_random = 1/2, env_user_save = Some 5, env_ai_save = Some 6\<rparr>
      [] 7 \<lparr>body_message = Some (js '' Hello ''), body_sessionId = Some (JString [])\<rparr> =
   ([\<lparr>cm_user = 7, cm_sessionId = js ''session_17'', cm_message = js ''Hello'',
       cm_messageType = UserMessage, cm_createdAt = 5\<rparr>,
     \<lparr>cm_user = 7, cm_sessionId = js ''session_17'', cm_message = greetings ! 1,
       cm_messageType = AiMessage, cm_createdAt = 6\<rparr>],
    Reply 200 (Sent \<lparr>cm_user = 7, cm_sessionId = js ''session_17'', cm_message = greetings ! 1,
       cm_messageType = AiMessage, cm_createdAt = 6\<rparr> (js ''session_17'')))"
proof -
  have t: "trim (js '' Hello '') = js ''Hello''"
    by (simp add: trim_def js_def isWhitespace_def)
  have g: "generateLocalResponse toLowerCase_ascii (1/2) (js ''Hello'') = Some (greetings ! 1)"
    by (simp add: generateLocalResponse_def toLowerCase_ascii_def js_def has_def pick_def greetings_def)
  have n: "js ''Hello'' \<noteq> []" by (simp add: js_def)
  have d: "js ''session_'' @ number_to_string 17 = js ''session_17''"
    by (simp add: js_def number_to_string.simps)
  show ?thesis
    using n by (simp add: post_send_def validationResult_def message_errors_def sessionId_errors_def
        sanitized_message_def t g save_def session_or_new_def d Let_def)
qed

text \<open>
  Read with the request's message and session id taken as they are sent, C8 fails on that
  call: the stored user document does not hold the request's message \<open>" Hello "\<close> but
  \<open>"Hello"\<close>, and the session id of the documents is not the empty session id of the
  request.
\<close>

theorem send_keeps_request_verbatim_counterexample:
  "post_send toLowerCase_ascii
      \<lparr>env_now = 17, env_random = 1/2, env_user_save = Some 5, env_ai_save = Some 6\<rparr>
      [] 7 \<lparr>body_message = Some (js '' Hello ''), body_sessionId = Some (JString [])\<rparr> =
   ([\<lparr>cm_user = 7, cm_sessionId = js ''session_17'', cm_message = js ''Hello'',
       cm_messageType = UserMessage, cm_createdAt = 5\<rparr>,
     \<lparr>cm_user = 7, cm_sessionId = js ''session_17'', cm_message = greetings ! 1,
       cm_messageType = AiMessage, cm_createdAt = 6\<rparr>],
    Reply 200 (Sent \<lparr>cm_user = 7, cm_sessionId = js ''session_17'', cm_message = greetings ! 1,
       cm_messageType = AiMessage, cm_createdAt = 6\<rparr> (js ''session_17''))) \<and>
   js ''Hello'' \<noteq> js '' Hello '' \<and> js ''session_17'' \<noteq> []"
  using example_send by (simp add: js_def)

lemma example_send_in_session:
  "post_send toLowerCase_ascii
      \<lparr>env_now = 17, env_random = 0, env_user_save = Some 8, env_ai_save = Some 9\<rparr>
      db 7 \<lparr>body_message = Some (js ''I can't sleep''), body_sessionId = Some (JString (js ''s1''))\<rparr> =
   (db @ [\<lparr>cm_user = 7, cm_sessionId = js ''s1'', cm_message = js ''I can't sleep'',
       cm_messageType = UserMessage, cm_createdAt = 8\<rparr>,
     \<lparr>cm_user = 7, cm_sessionId = js ''s1'', cm_message = sleep ! 0,
       cm_messageType = AiMessage, cm_createdAt = 9\<rparr>],
    Reply 200 (Sent \<lparr>cm_user = 7, cm_sessionId = js ''s1'', cm_message = sleep ! 0,
       cm_messageType = AiMessage, cm_createdAt = 9\<rparr> (js ''s1'')))"
proof -
  have t: "trim (js ''I can't sleep'') = js ''I can't sleep''"
    by (simp add: trim_def js_def isWhitespace_def)
  have g: "generateLocalResponse toLowerCase_ascii 0 (js ''I can't sleep'') = Some (sleep ! 0)"
    by (simp add: generateLocalResponse_def toLowerCase_ascii_def js_def has_def pick_def sleep_def)
  have n: "js ''I can't sleep'' \<noteq> []" "js ''s1'' \<noteq> []" by (simp_all add: js_def)
  show ?thesis
    using n by (simp add: post_send_def validationResult_def message_errors_def sessionId_errors_def
        sanitized_message_def t g save_def session_or_new_def Let_def)
qed

text \<open>
  A call within the session \<open>s1\<close> on the example collection, followed by a reading of the
  sessions.
\<close>

theorem send_appends_user_and_ai_rows_witness:
  "post_send toLowerCase_ascii
      \<lparr>env_now = 17, env_random = 0, env_user_save = Some 8, env_ai_save = Some 9\<rparr>
      example_db 7 \<lparr>body_message = Some (js ''I can't sleep''), body_sessionId = Some (JString (js ''s1''))\<rparr> =
   (example_db @ [\<lparr>cm_user = 7, cm_sessionId = js ''s1'', cm_message = js ''I can't sleep'',
       cm_messageType = UserMessage, cm_createdAt = 8\<rparr>,
     \<lparr>cm_user = 7, cm_sessionId = js ''s1'', cm_message = sleep ! 0,
       cm_messageType = AiMessage, cm_createdAt = 9\<rparr>],
    Reply 200 (Sent \<lparr>cm_user = 7, cm_sessionId = js ''s1'', cm_message = sleep ! 0,
       cm_messageType = AiMessage, cm_createdAt = 9\<rparr> (js ''s1''))) \<and>
   (\<exists>u m. example_db @ [\<lparr>cm_user = 7, cm_sessionId = js ''s1'', cm_message = js ''I can't sleep'',
              cm_messageType = UserMessage, cm_createdAt = 8\<rparr>,
            \<lparr>cm_user = 7, cm_sessionId = js ''s1'', cm_message = sleep ! 0,
              cm_messageType = AiMessage, cm_createdAt = 9\<rparr>] =
           example_db @ [u, \<lparr>cm_user = 7, cm_sessionId = js ''s1'', cm_message = sleep ! 0,
              cm_messageType = AiMessage, cm_createdAt = 9\<rparr>] \<and>
      cm_messageType u = UserMessage \<and> cm_message u = trim m \<and> m = js ''I can't sleep'' \<and>
      cm_sessionId u = js ''s1'') \<and>
   prefix example_db (chatbot_run toLowerCase_ascii example_db
     [(7, Send \<lparr>env_now = 17, env_random = 0, env_user_save = Some 8, env_ai_save = Some 9\<rparr>
            \<lparr>body_message = Some (js ''I can't sleep''), body_sessionId = Some (JString (js ''s1''))\<rparr>),
      (7, Sessions)])"
proof -
  let ?env = "\<lparr>env_now = 17, env_random = 0, env_user_save = Some 8, env_ai_save = Some 9\<rparr>"
  let ?body = "\<lparr>body_message = Some (js ''I can't sleep''), body_sessionId = Some (JString (js ''s1''))\<rparr>"
  let ?u = "\<lparr>cm_user = 7, cm_sessionId = js ''s1'', cm_message = js ''I can't sleep'',
              cm_messageType = UserMessage, cm_createdAt = 8\<rparr>"
  let ?ai = "\<lparr>cm_user = 7, cm_sessionId = js ''s1'', cm_message = sleep ! 0,
              cm_messageType = AiMessage, cm_createdAt = 9\<rparr>"
  let ?reqs = "[(7, Send ?env ?body), (7, Sessions)]"
  have e: "post_send toLowerCase_ascii ?env example_db 7 ?body =
      (example_db @ [?u, ?ai], Reply 200 (Sent ?ai (js ''s1'')))"
    by (rule example_send_in_session)
  from send_appends_user_and_ai_rows
    [of toLowerCase_ascii ?env example_db 7 ?body "example_db @ [?u, ?ai]" ?ai "js ''s1''" ?reqs] e
  show ?thesis by auto
qed

text \<open>
  C10: every message \<open>GET /history\<close> returns is a document of the collection that
  belongs to the requesting user, and every session \<open>GET /sessions\<close> returns is the session
  of one of that user's documents, with that document's message and time. The histories
  returned to two different users share no document. Both answers are functions of the
  requesting user's own documents: two collections that agree on them give the same
  answers, and no chatbot request of another user changes them. The answer of
  \<open>POST /send\<close> does not depend on the stored documents at all.
\<close>

theorem chat_history_isolated_per_user:
  "(get_history db uid q = Reply code r \<longrightarrow>
      (\<forall>m\<in>set (h_messages r). m \<in> set db \<and> cm_user m = uid)) \<and>
   (get_sessions db uid = Reply code' ss \<longrightarrow>
      (\<forall>s\<in>set ss. \<exists>m\<in>set db. cm_user m = uid \<and> cm_sessionId m = s_id s \<and>
         s_lastMessage s = cm_message m \<and> s_lastTimestamp s = cm_createdAt m)) \<and>
   (uid \<noteq> uid' \<and> get_history db uid q = Reply code r \<and> get_history db uid' q' = Reply code'' r' \<longrightarrow>
      set (h_messages r) \<inter> set (h_messages r') = {}) \<and>
   (filter (\<lambda>m. cm_user m = uid) db = filter (\<lambda>m. cm_user m = uid) db2 \<longrightarrow>
      get_history db uid q = get_history db2 uid q \<and> get_sessions db uid = get_sessions db2 uid) \<and>
   (uid' \<noteq> uid \<longrightarrow>
      get_history (chatbot_step toLowerCase db (uid', req)) uid q = get_history db uid q \<and>
      get_sessions (chatbot_step toLowerCase db (uid', req)) uid = get_sessions db uid) \<and>
   snd (post_send toLowerCase env db uid body) = snd (post_send toLowerCase env db2 uid body)"
proof (intro conjI impI)
  assume "get_history db uid q = Reply code r"
  from history_messages_subset [OF this]
  show "\<forall>m\<in>set (h_messages r). m \<in> set db \<and> cm_user m = uid" by auto
next
  assume "get_sessions db uid = Reply code' ss"
  then show "\<forall>s\<in>set ss. \<exists>m\<in>set db. cm_user m = uid \<and> cm_sessionId m = s_id s \<and>
         s_lastMessage s = cm_message m \<and> s_lastTimestamp s = cm_createdAt m"
    using sessions_origin by blast
next
  assume a: "uid \<noteq> uid' \<and> get_history db uid q = Reply code r \<and> get_history db uid' q' = Reply code'' r'"
  then have "set (h_messages r) \<subseteq> {m \<in> set db. cm_user m = uid}"
    and "set (h_messages r') \<subseteq> {m \<in> set db. cm_user m = uid'}"
    using history_messages_subset by blast+
  with a show "set (h_messages r) \<inter> set (h_messages r') = {}" by auto
next
  assume "filter (\<lambda>m. cm_user m = uid) db = filter (\<lambda>m. cm_user m = uid) db2"
  then show "get_history db uid q = get_history db2 uid q" "get_sessions db uid = get_sessions db2 uid"
    by (rule history_depends_on_own_rows, rule sessions_depend_on_own_rows)
next
  assume "uid' \<noteq> uid"
  from other_user_step_keeps_rows [OF this]
  have "filter (\<lambda>m. cm_user m = uid) (chatbot_step toLowerCase db (uid', req)) =
         filter (\<lambda>m. cm_user m = uid) db" .
  then show "get_history (chatbot_step toLowerCase db (uid', req)) uid q = get_history db uid q"
    "get_sessions (chatbot_step toLowerCase db (uid', req)) uid = get_sessions db uid"
    by (rule history_depends_on_own_rows, rule sessions_depend_on_own_rows)
next
  show "snd (post_send toLowerCase env db uid body) = snd (post_send toLowerCase env db2 uid body)"
    by (rule post_send_reply_independent_of_db)
qed

lemma example_history_7:
  "get_history example_db 7 example_query =
     Reply 200 \<lparr>h_messages = [example_db ! 0, example_db ! 2], h_totalPages = Some 1,
                h_currentPage = 1, h_total = 2\<rparr>"
proof -
  have "\<lceil>(1::real) / 25\<rceil> = 1" by (rule ceiling_unique) simp_all
  then show ?thesis
    by (simp add: example_db_def example_query_def get_history_def history_filter_def
        sort_newest_first_def limit_docs_def Let_def)
qed

lemma example_history_8:
  "get_history example_db 8 example_query =
     Reply 200 \<lparr>h_messages = [example_db ! 1], h_totalPages = Some 1,
                h_currentPage = 1, h_total = 1\<rparr>"
proof -
  have "\<lceil>(1::real) / 50\<rceil> = 1" by (rule ceiling_unique) simp_all
  then show ?thesis
    by (simp add: example_db_def example_query_def get_history_def history_filter_def
        sort_newest_first_def limit_docs_def Let_def)
qed

lemma example_sessions_7:
  "get_sessions example_db 7 =
     Reply 200 [\<lparr>s_id = js ''s1'', s_lastMessage = js ''ok'', s_lastTimestamp = 3\<rparr>]"
  by (simp add: example_db_def get_sessions_def group_by_session_def Let_def)

text \<open>
  Users 7 and 8 in one collection: the history and the sessions of user 7 hold the two
  documents of user 7 only, and stay the same without the document of user 8.
\<close>

theorem chat_history_isolated_per_user_witness:
  "get_history example_db 7 example_query =
     Reply 200 \<lparr>h_messages = [example_db ! 0, example_db ! 2], h_totalPages = Some 1,
                h_currentPage = 1, h_total = 2\<rparr> \<and>
   cm_user (example_db ! 0) = 7 \<and> cm_user (example_db ! 2) = 7 \<and>
   get_sessions example_db 7 =
     Reply 200 [\<lparr>s_id = js ''s1'', s_lastMessage = js ''ok'', s_lastTimestamp = 3\<rparr>] \<and>
   (\<exists>m. m \<in> set example_db \<and> cm_user m = 7 \<and> cm_sessionId m = js ''s1'' \<and> cm_message m = js ''ok'') \<and>
   (7::nat) \<noteq> 8 \<and>
   set [example_db ! 0, example_db ! 2] \<inter> set [example_db ! 1] = {} \<and>
   filter (\<lambda>m. cm_user m = 7) example_db = filter (\<lambda>m. cm_user m = 7) [example_db ! 0, example_db ! 2] \<and>
   get_history example_db 7 example_query = get_history [example_db ! 0, example_db ! 2] 7 example_query \<and>
   get_sessions (chatbot_step toLowerCase_ascii example_db (8, Sessions)) 7 = get_sessions example_db 7"
proof -
  let ?r7 = "\<lparr>h_messages = [example_db ! 0, example_db ! 2], h_totalPages = Some 1,
                h_currentPage = 1, h_total = 2\<rparr>"
  let ?r8 = "\<lparr>h_messages = [example_db ! 1], h_totalPages = Some 1,
                h_currentPage = 1, h_total = 1\<rparr>"
  let ?ss = "[\<lparr>s_id = js ''s1'', s_lastMessage = js ''ok'', s_lastTimestamp = 3\<rparr>]"
  have f: "filter (\<lambda>m. cm_user m = 7) example_db =
           filter (\<lambda>m. cm_user m = 7) [example_db ! 0, example_db ! 2]"
    by (simp add: example_db_def)
  note t = chat_history_isolated_per_user
    [of example_db 7 example_query 200 ?r7 200 ?ss 8 example_query 200 ?r8
        "[example_db ! 0, example_db ! 2]" toLowerCase_ascii Sessions]
  note t1 = t [THEN conjunct1, rule_format, OF example_history_7]
  note t2 = t [THEN conjunct2, THEN conjunct1, rule_format, OF example_sessions_7]
  note t3 = t [THEN conjunct2, THEN conjunct2, THEN conjunct1, rule_format]
  note t4 = t [THEN conjunct2, THEN conjunct2, THEN conjunct2, THEN conjunct1, rule_format, OF f]
  note t5 = t [THEN conjunct2, THEN conjunct2, THEN conjunct2, THEN conjunct2, THEN conjunct1,
    rule_format]
  have 1: "cm_user (example_db ! 0) = 7 \<and> cm_user (example_db ! 2) = 7"
    using t1 [of "example_db ! 0"] t1 [of "example_db ! 2"] by simp
  have 2: "\<exists>m. m \<in> set example_db \<and> cm_user m = 7 \<and> cm_sessionId m = js ''s1'' \<and> cm_message m = js ''ok''"
    using t2 [of "\<lparr>s_id = js ''s1'', s_lastMessage = js ''ok'', s_lastTimestamp = 3\<rparr>"]
    by auto
  have n: "(7::nat) \<noteq> 8" by simp
  have 3: "set [example_db ! 0, example_db ! 2] \<inter> set [example_db ! 1] = {}"
    using t3 [OF conjI [OF n conjI [OF example_history_7 example_history_8]]] by simp
  have 4: "get_history example_db 7 example_query =
      get_history [example_db ! 0, example_db ! 2] 7 example_query"
    using t4 by (rule conjunct1)
  have 5: "get_sessions (chatbot_step toLowerCase_ascii example_db (8, Sessions)) 7 =
      get_sessions example_db 7"
    using t5 by simp
  show ?thesis
    using example_history_7 example_sessions_7 1 2 n 3 f 4 5 by blast
qed

section \<open>Properties of the slot computation\<close>

lemma slots_in_window_bounds:
  assumes "s \<in> set (slots_in_window start finish len)"
  shows "0 < len \<and> start \<le> ts_startTime s \<and> ts_endTime s \<le> finish \<and>
         ts_endTime s = ts_startTime s + len"
proof -
  from assms have len: "0 < len" by (auto simp: slots_in_window_def split: if_splits)
  from assms len obtain k where k: "k < (finish - start) div len"
    and s: "s = \<lparr>ts_startTime = start + k * len, ts_endTime = start + (k + 1) * len\<rparr>"
    by (auto simp: slots_in_window_def)
  from k have "(k + 1) \<le> (finish - start) div len" by simp
  then have "(k + 1) * len \<le> ((finish - start) div len) * len" by (rule mult_le_mono1)
  also have "\<dots> \<le> finish - start" by (simp add: div_times_less_eq_dividend)
  finally have le: "(k + 1) * len \<le> finish - start" .
  from k have "0 < finish - start" by (cases "finish - start") auto
  with le have "start + (k + 1) * len \<le> finish" by simp
  with len s show ?thesis by simp
qed

text \<open>
  C3: for every weekly availability and every date, each slot of the computed list lies in
  the window of that day, which is enabled, has the slot length, and overlaps no confirmed
  or pending appointment of the therapist on that date.
\<close>

theorem available_slots_inside_window_and_free:
  "s \<in> set (available_slots av appointments therapist date len) \<Longrightarrow>
     da_available (av (weekday_of date)) \<and>
     da_start (av (weekday_of date)) \<le> ts_startTime s \<and>
     ts_endTime s \<le> da_end (av (weekday_of date)) \<and>
     ts_endTime s = ts_startTime s + len \<and> 0 < len \<and>
     (\<forall>a\<in>set appointments. occupies therapist date a \<longrightarrow> \<not> overlaps s a)"
proof -
  assume a: "s \<in> set (available_slots av appointments therapist date len)"
  let ?day = "av (weekday_of date)"
  from a have av: "da_available ?day"
    by (auto simp: available_slots_def Let_def split: if_splits)
  with a have w: "s \<in> set (slots_in_window (da_start ?day) (da_end ?day) len)"
    and f: "\<not> list_ex (\<lambda>a. occupies therapist date a \<and> overlaps s a) appointments"
    by (auto simp: available_slots_def Let_def)
  from f have "\<forall>a\<in>set appointments. occupies therapist date a \<longrightarrow> \<not> overlaps s a"
    by (auto simp: list_ex_iff)
  with av slots_in_window_bounds [OF w] show ?thesis by simp
qed

lemma example_slots:
  "available_slots defaultAvailability [example_appointment] 3 4 60 =
     [\<lparr>ts_startTime = 540, ts_endTime = 600\<rparr>, \<lparr>ts_startTime = 660, ts_endTime = 720\<rparr>,
      \<lparr>ts_startTime = 720, ts_endTime = 780\<rparr>, \<lparr>ts_startTime = 780, ts_endTime = 840\<rparr>,
      \<lparr>ts_startTime = 840, ts_endTime = 900\<rparr>, \<lparr>ts_startTime = 900, ts_endTime = 960\<rparr>,
      \<lparr>ts_startTime = 960, ts_endTime = 1020\<rparr>]"
proof -
  have u: "[0 ..< 8] = [0, 1, 2, 3, 4, 5, 6, 7::nat]" by code_simp
  show ?thesis
    by (simp add: available_slots_def defaultAvailability_def weekday_of_def slots_in_window_def
        example_appointment_def occupies_def overlaps_def hhmm_def Let_def u)
qed

text \<open>
  A Monday of the default availability with a pending appointment from 10:00 to 11:00:
  the slot from 11:00 to 12:00 is offered, the one from 10:00 is not.
\<close>

theorem available_slots_inside_window_and_free_witness:
  "\<lparr>ts_startTime = 660, ts_endTime = 720\<rparr> \<in>
     set (available_slots defaultAvailability [example_appointment] 3 4 60) \<and>
   da_available (defaultAvailability (weekday_of 4)) \<and>
   da_start (defaultAvailability (weekday_of 4)) \<le> 660 \<and>
   720 \<le> da_end (defaultAvailability (weekday_of 4)) \<and>
   occupies 3 4 example_appointment \<and>
   \<not> overlaps \<lparr>ts_startTime = 660, ts_endTime = 720\<rparr> example_appointment"
proof -
  have m: "\<lparr>ts_startTime = 660, ts_endTime = 720\<rparr> \<in>
     set (available_slots defaultAvailability [example_appointment] 3 4 60)"
    by (simp add: example_slots)
  have o: "occupies 3 4 example_appointment"
    by (simp add: occupies_def example_appointment_def)
  from available_slots_inside_window_and_free [OF m] o m show ?thesis by simp
qed

section \<open>Properties of the appointment lifecycle\<close>

lemma transition_allowed_iff:
  "transition_allowed s t \<longleftrightarrow>
     (s, t) \<in> {(Pending, Confirmed), (Pending, Cancelled), (Confirmed, Cancelled), (Confirmed, Completed)}"
  by (cases s; cases t) simp_all

lemma handle_request_status:
  "handle_request a r = Inr a' \<Longrightarrow>
   ap_status a' = ap_status a \<or> transition_allowed (ap_status a) (ap_status a')"
  by (cases r) (auto split: if_splits)

lemma handle_request_terminal:
  "ap_status a = Completed \<or> ap_status a = Cancelled \<Longrightarrow> handle_request a r = Inr a' \<Longrightarrow>
   ap_status a' = ap_status a"
  by (cases r) (auto split: if_splits)

lemma lifecycle_terminal:
  "ap_status a = Completed \<or> ap_status a = Cancelled \<Longrightarrow> ap_status (lifecycle a rs) = ap_status a"
proof (induction rs arbitrary: a)
  case Nil
  show ?case by simp
next
  case (Cons r rs)
  show ?case
  proof (cases "handle_request a r")
    case (Inl e)
    with Cons show ?thesis by simp
  next
    case (Inr a')
    with Cons.prems have s: "ap_status a' = ap_status a" by (rule handle_request_terminal)
    from Cons.prems s have "ap_status a' = Completed \<or> ap_status a' = Cancelled" by simp
    then have "ap_status (lifecycle a' rs) = ap_status a'" by (rule Cons.IH)
    with Inr s show ?thesis by simp
  qed
qed

lemma lifecycle_reachable:
  "transition_allowed\<^sup>*\<^sup>* (ap_status a) (ap_status (lifecycle a rs))"
proof (induction rs arbitrary: a)
  case Nil
  show ?case by simp
next
  case (Cons r rs)
  show ?case
  proof (cases "handle_request a r")
    case (Inl e)
    with Cons.IH [of a] show ?thesis by simp
  next
    case (Inr a')
    from handle_request_status [OF Inr]
    have "transition_allowed\<^sup>*\<^sup>* (ap_status a) (ap_status a')" by auto
    also have "transition_allowed\<^sup>*\<^sup>* (ap_status a') (ap_status (lifecycle a' rs))" by (rule Cons.IH)
    finally show ?thesis using Inr by simp
  qed
qed

lemma therapist_click_keeps_selection_pending:
  "selection_pending d \<Longrightarrow> selection_pending (fst (therapist_click d c))"
  by (cases c) (auto simp: therapist_click_def selection_pending_def split: option.splits)

lemma therapist_click_request:
  assumes "selection_pending d" "therapist_click d c = (d', Some (i, t))"
  shows "\<exists>b. td_selectedAppointment d = Some b \<and> i = ap_id b \<and> ap_status b = Pending \<and>
           (t = Confirmed \<or> t = Cancelled)"
  using assms
  by (cases c)
     (auto simp: therapist_click_def selection_pending_def updateStatusOffered_def
        handleStatusUpdate_def split: option.splits if_splits)

text \<open>
  C6: the allowed transitions are pending to confirmed, pending to cancelled, confirmed to
  cancelled and confirmed to completed. Every request the server carries out leaves the
  status as it is or moves it along an allowed transition, a rejected request changes
  nothing, so the status after any sequence of requests is reached from the first by
  allowed transitions only; and a completed or cancelled appointment keeps its status for
  good. The therapist dashboard only ever asks for such a transition: through every click
  and every reload its selected appointment is one it listed as pending, and the request
  it sends moves that appointment to confirmed or to cancelled, which the server carries
  out on a pending appointment.
\<close>

theorem status_changes_follow_lifecycle:
  "(transition_allowed s t \<longleftrightarrow>
      (s, t) \<in> {(Pending, Confirmed), (Pending, Cancelled), (Confirmed, Cancelled),
                (Confirmed, Completed)}) \<and>
   (handle_request a r = Inr a' \<longrightarrow>
      ap_status a' = ap_status a \<or> transition_allowed (ap_status a) (ap_status a')) \<and>
   (handle_request a r = Inl e \<longrightarrow> lifecycle a [r] = a) \<and>
   transition_allowed\<^sup>*\<^sup>* (ap_status a) (ap_status (lifecycle a rs)) \<and>
   (ap_status a = Completed \<or> ap_status a = Cancelled \<longrightarrow>
      ap_status (lifecycle a rs) = ap_status a) \<and>
   (selection_pending d \<longrightarrow> selection_pending (fst (therapist_click d c))) \<and>
   selection_pending (statusUpdateSucceeded d loaded) \<and>
   (selection_pending d \<and> therapist_click d c = (d', Some (i, t')) \<longrightarrow>
      (\<exists>b. td_selectedAppointment d = Some b \<and> i = ap_id b \<and>
         transition_allowed (ap_status b) t' \<and>
         handle_request b (UpdateStatus t') = Inr (b\<lparr>ap_status := t'\<rparr>)))"
proof (intro conjI impI)
  show "transition_allowed s t \<longleftrightarrow>
      (s, t) \<in> {(Pending, Confirmed), (Pending, Cancelled), (Confirmed, Cancelled),
                (Confirmed, Completed)}"
    by (rule transition_allowed_iff)
next
  assume "handle_request a r = Inr a'"
  then show "ap_status a' = ap_status a \<or> transition_allowed (ap_status a) (ap_status a')"
    by (rule handle_request_status)
next
  assume "handle_request a r = Inl e"
  then show "lifecycle a [r] = a" by simp
next
  show "transition_allowed\<^sup>*\<^sup>* (ap_status a) (ap_status (lifecycle a rs))"
    by (rule lifecycle_reachable)
next
  assume "ap_status a = Completed \<or> ap_status a = Cancelled"
  then show "ap_status (lifecycle a rs) = ap_status a" by (rule lifecycle_terminal)
next
  assume "selection_pending d"
  then show "selection_pending (fst (therapist_click d c))"
    by (rule therapist_click_keeps_selection_pending)
next
  show "selection_pending (statusUpdateSucceeded d loaded)"
    by (simp add: selection_pending_def statusUpdateSucceeded_def)
next
  assume h: "selection_pending d \<and> therapist_click d c = (d', Some (i, t'))"
  from therapist_click_request [OF conjunct1 [OF h] conjunct2 [OF h]]
  obtain b where b: "td_selectedAppointment d = Some b" "i = ap_id b" "ap_status b = Pending"
    "t' = Confirmed \<or> t' = Cancelled" by blast
  then have "transition_allowed (ap_status b) t'" by auto
  then have "handle_request b (UpdateStatus t') = Inr (b\<lparr>ap_status := t'\<rparr>)" by simp
  with b \<open>transition_allowed (ap_status b) t'\<close>
  show "\<exists>b. td_selectedAppointment d = Some b \<and> i = ap_id b \<and>
         transition_allowed (ap_status b) t' \<and>
         handle_request b (UpdateStatus t') = Inr (b\<lparr>ap_status := t'\<rparr>)"
    by blast
qed

lemma example_click:
  "therapist_click
     \<lparr>td_appointments = [example_appointment], td_selectedAppointment = Some example_appointment,
      td_statusDialogOpen = True\<rparr> ClickConfirm =
   (\<lparr>td_appointments = [example_appointment], td_selectedAppointment = Some example_appointment,
      td_statusDialogOpen = True\<rparr>, Some (1, Confirmed))"
  by (simp add: therapist_click_def handleStatusUpdate_def example_appointment_def)

lemma example_selection:
  "selection_pending
     \<lparr>td_appointments = [example_appointment], td_selectedAppointment = Some example_appointment,
      td_statusDialogOpen = True\<rparr>"
  by (simp add: selection_pending_def updateStatusOffered_def example_appointment_def)

text \<open>
  The pending example appointment is confirmed from the dashboard; once completed, it
  stays completed under a later update, cancellation and confirmation.
\<close>

theorem status_changes_follow_lifecycle_witness:
  "handle_request example_appointment (UpdateStatus Confirmed) =
     Inr (example_appointment\<lparr>ap_status := Confirmed\<rparr>) \<and>
   transition_allowed (ap_status example_appointment) Confirmed \<and>
   selection_pending
     \<lparr>td_appointments = [example_appointment], td_selectedAppointment = Some example_appointment,
      td_statusDialogOpen = True\<rparr> \<and>
   therapist_click
     \<lparr>td_appointments = [example_appointment], td_selectedAppointment = Some example_appointment,
      td_statusDialogOpen = True\<rparr> ClickConfirm =
   (\<lparr>td_appointments = [example_appointment], td_selectedAppointment = Some example_appointment,
      td_statusDialogOpen = True\<rparr>, Some (1, Confirmed)) \<and>
   ap_status (example_appointment\<lparr>ap_status := Completed\<rparr>) = Completed \<and>
   handle_request (example_appointment\<lparr>ap_status := Completed\<rparr>) (UpdateStatus Pending) =
     Inl Rejected \<and>
   ap_status (lifecycle (example_appointment\<lparr>ap_status := Completed\<rparr>)
     [UpdateStatus Pending, CancelAppointment, UpdateStatus Confirmed]) = Completed"
proof -
  let ?d = "\<lparr>td_appointments = [example_appointment],
             td_selectedAppointment = Some example_appointment, td_statusDialogOpen = True\<rparr>"
  let ?c = "example_appointment\<lparr>ap_status := Completed\<rparr>"
  let ?rs = "[UpdateStatus Pending, CancelAppointment, UpdateStatus Confirmed]"
  have p: "ap_status example_appointment = Pending" by (simp add: example_appointment_def)
  have c: "ap_status ?c = Completed" by simp
  have r: "handle_request ?c (UpdateStatus Pending) = Inl Rejected" by simp
  note t1 = status_changes_follow_lifecycle
    [of Pending Confirmed example_appointment "UpdateStatus Confirmed"
        "example_appointment\<lparr>ap_status := Confirmed\<rparr>" Rejected "[]" ?d ClickConfirm "[]" ?d 1 Confirmed]
  note t2 = status_changes_follow_lifecycle
    [of Completed Pending ?c "UpdateStatus Pending" ?c Rejected ?rs ?d ClickConfirm "[]" ?d 1 Confirmed]
  from t1 example_selection example_click
  obtain b where b: "td_selectedAppointment ?d = Some b"
    "transition_allowed (ap_status b) Confirmed"
    "handle_request b (UpdateStatus Confirmed) = Inr (b\<lparr>ap_status := Confirmed\<rparr>)"
    by blast
  from b(1) have "b = example_appointment" by simp
  with b have 1: "handle_request example_appointment (UpdateStatus Confirmed) =
      Inr (example_appointment\<lparr>ap_status := Confirmed\<rparr>)"
    and 2: "transition_allowed (ap_status example_appointment) Confirmed"
    by simp_all
  from t2 c have 3: "ap_status (lifecycle ?c ?rs) = Completed" by simp
  from 1 2 example_selection example_click c r 3 show ?thesis by blast
qed

lemma review_accepted_iff:
  "handle_request a (ReviewAppointment rating review) = Inr a' \<longleftrightarrow>
     ap_status a = Completed \<and> ap_rating a = None \<and>
     a\<lparr>ap_rating := Some rating, ap_review := Some review\<rparr> = a'"
  by (cases "ap_status a = Completed \<and> ap_rating a = None") simp_all

lemma update_accepted_iff:
  "handle_request a (UpdateStatus s) = Inr a' \<longleftrightarrow>
     transition_allowed (ap_status a) s \<and> a\<lparr>ap_status := s\<rparr> = a'"
  by (cases "transition_allowed (ap_status a) s") simp_all

lemma cancel_accepted_iff:
  "handle_request a CancelAppointment = Inr a' \<longleftrightarrow>
     transition_allowed (ap_status a) Cancelled \<and> a\<lparr>ap_status := Cancelled\<rparr> = a'"
  by (cases "transition_allowed (ap_status a) Cancelled") simp_all

lemma handle_request_keeps_rating:
  assumes "ap_rating a = Some n" "handle_request a r = Inr a'"
  shows "ap_rating a' = Some n"
proof (cases r)
  case (UpdateStatus s)
  from assms(2) have "handle_request a (UpdateStatus s) = Inr a'" unfolding UpdateStatus .
  then have "a\<lparr>ap_status := s\<rparr> = a'" by (simp only: update_accepted_iff)
  then have "ap_rating a' = ap_rating (a\<lparr>ap_status := s\<rparr>)" by (rule arg_cong [symmetric])
  with assms(1) show ?thesis by simp
next
  case CancelAppointment
  from assms(2) have "handle_request a CancelAppointment = Inr a'" unfolding CancelAppointment .
  then have "a\<lparr>ap_status := Cancelled\<rparr> = a'" by (simp only: cancel_accepted_iff)
  then have "ap_rating a' = ap_rating (a\<lparr>ap_status := Cancelled\<rparr>)" by (rule arg_cong [symmetric])
  with assms(1) show ?thesis by simp
next
  case (ReviewAppointment rating review)
  from assms(2) have "handle_request a (ReviewAppointment rating review) = Inr a'"
    unfolding ReviewAppointment .
  then have "ap_rating a = None" by (simp only: review_accepted_iff)
  with assms(1) show ?thesis by simp
qed

lemma lifecycle_keeps_rating:
  "ap_rating a = Some n \<Longrightarrow> ap_rating (lifecycle a rs) = Some n"
proof (induction rs arbitrary: a)
  case Nil
  then show ?case by simp
next
  case (Cons r rs)
  show ?case
  proof (cases "handle_request a r")
    case (Inl e)
    with Cons show ?thesis by simp
  next
    case (Inr a')
    from Cons.prems Inr have "ap_rating a' = Some n" by (rule handle_request_keeps_rating)
    then have "ap_rating (lifecycle a' rs) = Some n" by (rule Cons.IH)
    with Inr show ?thesis by simp
  qed
qed

lemma handle_request_completed_frame:
  assumes "ap_status a = Completed" "handle_request a r = Inr a'"
  shows "without_review a' = without_review a \<and> ap_status a' = Completed"
proof (cases r)
  case (UpdateStatus s)
  from assms(2) have "handle_request a (UpdateStatus s) = Inr a'" unfolding UpdateStatus .
  then have "transition_allowed (ap_status a) s" by (simp only: update_accepted_iff)
  with assms(1) show ?thesis by simp
next
  case CancelAppointment
  from assms(2) have "handle_request a CancelAppointment = Inr a'" unfolding CancelAppointment .
  then have "transition_allowed (ap_status a) Cancelled" by (simp only: cancel_accepted_iff)
  with assms(1) show ?thesis by simp
next
  case (ReviewAppointment rating review)
  from assms(2) have "handle_request a (ReviewAppointment rating review) = Inr a'"
    unfolding ReviewAppointment .
  then have "a\<lparr>ap_rating := Some rating, ap_review := Some review\<rparr> = a'"
    by (simp only: review_accepted_iff)
  then have e: "a' = a\<lparr>ap_rating := Some rating, ap_review := Some review\<rparr>" by (rule sym)
  show ?thesis unfolding e using assms(1) by (simp add: without_review_def)
qed

lemma lifecycle_completed_frame:
  "ap_status a = Completed \<Longrightarrow> without_review (lifecycle a rs) = without_review a"
proof (induction rs arbitrary: a)
  case Nil
  show ?case by simp
next
  case (Cons r rs)
  show ?case
  proof (cases "handle_request a r")
    case (Inl e)
    with Cons show ?thesis by simp
  next
    case (Inr a')
    from handle_request_completed_frame [OF Cons.prems Inr]
    have f: "without_review a' = without_review a" and c: "ap_status a' = Completed" by simp_all
    from Cons.IH [OF c] f Inr show ?thesis by simp
  qed
qed

lemma handleSubmitRating_Some:
  assumes "handleSubmitRating d = Some (i, n, txt)"
  shows "rd_selectedAppointmentId d = Some i \<and> rd_ratingValue d = Some n \<and> 0 < n \<and>
      rd_reviewText d = txt"
proof (cases "rd_selectedAppointmentId d")
  case None
  with assms show ?thesis by (simp add: handleSubmitRating_def)
next
  case i: (Some i')
  show ?thesis
  proof (cases "rd_ratingValue d")
    case None
    with assms i show ?thesis by (simp add: handleSubmitRating_def)
  next
    case (Some r)
    with assms i show ?thesis by (cases "r = 0") (simp_all add: handleSubmitRating_def)
  qed
qed

lemma rateOffered_D:
  assumes "rateOffered a"
  shows "ap_status a = Completed \<and> (ap_rating a = None \<or> ap_rating a = Some 0)"
  using assms by (cases "ap_rating a") (simp_all add: rateOffered_def)

text \<open>
  C5: a review is accepted only for an appointment that is completed and has no rating;
  once one is accepted, every later review of that appointment is rejected, whatever
  requests come in between; and no sequence of requests changes any field of a completed
  appointment other than its rating and review. On the user dashboard the button \<open>Rate\<close>
  is shown only for a completed appointment with no rating, and \<open>handleSubmitRating\<close> sends a
  review only for the selected appointment and with a chosen rating.
\<close>

theorem review_once_per_completed_appointment:
  "(handle_request a (ReviewAppointment rating review) = Inr a' \<longrightarrow>
      ap_status a = Completed \<and> ap_rating a = None \<and>
      (\<forall>rs rating' review'.
         handle_request (lifecycle a' rs) (ReviewAppointment rating' review') = Inl Rejected)) \<and>
   (ap_status a = Completed \<longrightarrow> without_review (lifecycle a rs) = without_review a) \<and>
   (rateOffered a \<longrightarrow> ap_status a = Completed \<and> (ap_rating a = None \<or> ap_rating a = Some 0)) \<and>
   (handleSubmitRating d = Some (i, n, txt) \<longrightarrow>
      rd_selectedAppointmentId d = Some i \<and> rd_ratingValue d = Some n \<and> 0 < n \<and>
      rd_reviewText d = txt)"
proof (intro conjI impI allI)
  assume h: "handle_request a (ReviewAppointment rating review) = Inr a'"
  then show "ap_status a = Completed" "ap_rating a = None" by (simp_all only: review_accepted_iff)
  from h have "a\<lparr>ap_rating := Some rating, ap_review := Some review\<rparr> = a'"
    by (simp only: review_accepted_iff)
  then have "ap_rating a' = ap_rating (a\<lparr>ap_rating := Some rating, ap_review := Some review\<rparr>)"
    by (rule arg_cong [symmetric])
  then have "ap_rating a' = Some rating" by simp
  then have "ap_rating (lifecycle a' rs) = Some rating" for rs by (rule lifecycle_keeps_rating)
  then show "handle_request (lifecycle a' rs) (ReviewAppointment rating' review') = Inl Rejected"
    for rs rating' review' by simp
next
  assume "ap_status a = Completed"
  then show "without_review (lifecycle a rs) = without_review a" by (rule lifecycle_completed_frame)
next
  assume "rateOffered a"
  from rateOffered_D [OF this]
  show "ap_status a = Completed" "ap_rating a = None \<or> ap_rating a = Some 0" by simp_all
next
  assume "handleSubmitRating d = Some (i, n, txt)"
  from handleSubmitRating_Some [OF this]
  show "rd_selectedAppointmentId d = Some i" "rd_ratingValue d = Some n" "0 < n"
    "rd_reviewText d = txt"
    by simp_all
qed

text \<open>
  The example appointment, completed: a first review is accepted and a second one
  rejected; the review and a later cancellation leave every other field as it was. The
  button is shown for it, and the dialog opened for it sends the review once a rating of 5
  is chosen.
\<close>

theorem review_once_per_completed_appointment_witness:
  "handle_request (example_appointment\<lparr>ap_status := Completed\<rparr>) (ReviewAppointment 5 (js ''good'')) =
     Inr (example_appointment\<lparr>ap_status := Completed, ap_rating := Some 5,
            ap_review := Some (js ''good'')\<rparr>) \<and>
   handle_request
     (example_appointment\<lparr>ap_status := Completed, ap_rating := Some 5, ap_review := Some (js ''good'')\<rparr>)
     (ReviewAppointment 4 []) = Inl Rejected \<and>
   ap_status (example_appointment\<lparr>ap_status := Completed\<rparr>) = Completed \<and>
   without_review (lifecycle (example_appointment\<lparr>ap_status := Completed\<rparr>)
       [ReviewAppointment 5 (js ''good''), CancelAppointment]) =
     without_review (example_appointment\<lparr>ap_status := Completed\<rparr>) \<and>
   rateOffered (example_appointment\<lparr>ap_status := Completed\<rparr>) \<and>
   handleSubmitRating ((handleOpenRatingDialog 1)\<lparr>rd_ratingValue := Some 5\<rparr>) = Some (1, 5, []) \<and>
   rd_selectedAppointmentId ((handleOpenRatingDialog 1)\<lparr>rd_ratingValue := Some 5\<rparr>) = Some 1"
proof -
  let ?c = "example_appointment\<lparr>ap_status := Completed\<rparr>"
  let ?c' = "example_appointment\<lparr>ap_status := Completed, ap_rating := Some 5,
               ap_review := Some (js ''good'')\<rparr>"
  let ?rs = "[ReviewAppointment 5 (js ''good''), CancelAppointment]"
  let ?d = "(handleOpenRatingDialog 1)\<lparr>rd_ratingValue := Some 5\<rparr>"
  have c: "ap_status ?c = Completed" by simp
  have h: "handle_request ?c (ReviewAppointment 5 (js ''good'')) = Inr ?c'"
    by (simp add: example_appointment_def)
  have o: "rateOffered ?c" by (simp add: rateOffered_def example_appointment_def)
  have s: "handleSubmitRating ?d = Some (1, 5, [])"
    by (simp add: handleSubmitRating_def handleOpenRatingDialog_def)
  note t = review_once_per_completed_appointment [of ?c 5 "js ''good''" ?c' ?rs ?d 1 5 "[]"]
  from t h have "\<forall>rs rating' review'.
      handle_request (lifecycle ?c' rs) (ReviewAppointment rating' review') = Inl Rejected"
    by blast
  then have "handle_request (lifecycle ?c' []) (ReviewAppointment 4 []) = Inl Rejected" by blast
  then have 2: "handle_request ?c' (ReviewAppointment 4 []) = Inl Rejected" by simp
  from t c have 3: "without_review (lifecycle ?c ?rs) = without_review ?c" by blast
  from t s have 4: "rd_selectedAppointmentId ?d = Some 1" by blast
  from h 2 c 3 o s 4 show ?thesis by blast
qed


end
